theory Spec2Isabelle
  imports Main
begin

section \<open>The option catalog (EXE.py, lines 11-72)\<close>

text \<open>
  \<open>TOOLS\<close> pairs a display name with the package identifier handed to the dependency
  check; \<open>TOOL_FLAGS\<close> lists, per tool and in the same order, the flag tokens with their
  explanations.
\<close>

definition TOOLS :: "(string \<times> string) list" where
  "TOOLS =
    [(''Nuitka'', ''nuitka''),
     (''PyInstaller'', ''pyinstaller''),
     (''cx_Freeze'', ''cx_Freeze''),
     (''py2exe (Windows only)'', ''py2exe''),
     (''pyoxidizer'', ''pyoxidizer''),
     (''auto-py-to-exe'', ''auto-py-to-exe'')]"

definition TOOL_FLAGS :: "(string \<times> string) list list" where
  "TOOL_FLAGS =
    [[(''--onefile'', ''Bundle into one executable''),
      (''--standalone'', ''Include all dependencies (portable)''),
      (''--show-progress'', ''Show build progress''),
      (''--noinclude-pytest-mode=nofollow'', ''Smaller EXE (strip pytest support)''),
      (''--mingw64'', ''Use MinGW64 as C compiler (Windows only)''),
      (''--windows-icon-from-ico=app.ico'', ''Custom app icon (replace path as needed)''),
      (''--enable-plugin=pyqt5'', ''Enable PyQt5 plugin support for Qt GUIs in Nuitka''),
      (''--include-qt-plugins=sensible'', ''Bundle sensible set of Qt plugins (most GUIs)'')],
     [(''--onefile'', ''Bundle into a single exe''),
      (''--console'', ''Enable console window (needed for input())''),
      (''--windowed'', ''No console window (GUI apps only)''),
      (''--icon=app.ico'', ''Custom app icon (replace path as needed)''),
      (''--clean'', ''Clean up temp files first''),
      (''--add-data=data.file;.'', ''Add external data file (replace as needed)'')],
     [(''base=None'', ''Console app (allows input())''),
      (''base=Win32GUI'', ''GUI app (no console)''),
      (''include_files'', ''Add extra files (use in setup.py)''),
      (''silent=True'', ''Suppress cx_Freeze output'')],
     [(''console'', ''Console app (allows input())''),
      (''windows'', ''GUI/windowed app''),
      (''bundle_files=1'', ''Try single exe (not recommended for complex apps)''),
      (''compressed=True'', ''Compress the library zip'')],
     [(''single_binary=True'', ''Bundle everything in one binary (edit oxidizer.bzl)''),
      (''--release'', ''Release mode build (smaller binary)''),
      (''--debug'', ''Debug mode build'')],
     []]"

section \<open>Python values: exceptions and list indexing\<close>

text \<open>
  The exception classes that can occur in the modelled code. \<open>ModuleNotFoundError\<close> is a
  subclass of \<open>ImportError\<close>; \<open>KeyboardInterrupt\<close> and \<open>SystemExit\<close> derive from
  \<open>BaseException\<close> only, so \<open>except Exception\<close> lets them pass.
\<close>

datatype exn_class =
    ImportError | ModuleNotFoundError | ValueError | IndexError | AttributeError
  | RuntimeError | OSError | FileNotFoundError | CalledProcessError
  | KeyboardInterrupt | SystemExit

datatype exn = Exn (exn_cls: exn_class) (exn_str: string)

definition isinstance_ImportError :: "exn \<Rightarrow> bool" where
  "isinstance_ImportError e = (exn_cls e = ImportError \<or> exn_cls e = ModuleNotFoundError)"

definition isinstance_Exception :: "exn \<Rightarrow> bool" where
  "isinstance_Exception e = (exn_cls e \<noteq> KeyboardInterrupt \<and> exn_cls e \<noteq> SystemExit)"

text \<open>\<open>xs[i]\<close> on a Python list: a negative index counts from the end, an index out of
  range raises \<open>IndexError\<close>.\<close>

definition py_getitem :: "'a list \<Rightarrow> int \<Rightarrow> exn + 'a" where
  "py_getitem xs i =
     (if 0 \<le> i \<and> i < int (length xs) then Inr (xs ! nat i)
      else if i < 0 \<and> - int (length xs) \<le> i then Inr (xs ! nat (int (length xs) + i))
      else Inl (Exn IndexError ''list index out of range''))"

section \<open>The window: \<open>ExeBuilderApp\<close> (lines 115-179)\<close>

text \<open>
  The widgets created at run time live in a store indexed by references; the layout of
  the options group and the list \<open>self.checkboxes\<close> hold references to the same objects.
  \<open>delete_later\<close> records the widgets handed to \<open>deleteLater()\<close>.
\<close>

datatype widget = QCheckBox (cb_text: string) (cb_checked: bool) | QLabel string

record app =
  file_path :: "string option"
  status :: string
  current_index :: int
  widgets :: "nat \<rightharpoonup> widget"
  next_ref :: nat
  flags_layout :: "nat list"
  checkboxes :: "nat list"
  delete_later :: "nat list"

text \<open>Lines 166-170: the loop over \<open>reversed(range(self.flags_layout.count()))\<close>. The layout
  only ever receives widgets (\<open>addWidget\<close>), so \<open>itemAt(i).widget()\<close> is the reference at
  position \<open>i\<close>; \<open>itemAt\<close> past the end gives \<open>None\<close>, on which \<open>.widget()\<close> raises.\<close>

fun remove_widgets :: "nat list \<Rightarrow> app \<Rightarrow> app \<times> exn option" where
  "remove_widgets [] s = (s, None)"
| "remove_widgets (i # rest) s =
     (if i < length (flags_layout s) then
        let w = flags_layout s ! i in
        remove_widgets rest
          (s\<lparr>flags_layout := remove1 w (flags_layout s),
             delete_later := delete_later s @ [w]\<rparr>)
      else (s, Some (Exn AttributeError
              (''NoneType object has no attribute widget''))))"

text \<open>Lines 173-176: one new, unchecked \<open>QCheckBox\<close> per flag descriptor, appended to the
  layout and to \<open>self.checkboxes\<close>.\<close>

fun add_checkboxes :: "(string \<times> string) list \<Rightarrow> app \<Rightarrow> app" where
  "add_checkboxes [] s = s"
| "add_checkboxes ((flag, explanation) # rest) s =
     add_checkboxes rest
       (s\<lparr>widgets := (widgets s)(next_ref s \<mapsto> QCheckBox (flag @ '' ('' @ explanation @ '')'') False),
          next_ref := Suc (next_ref s),
          flags_layout := flags_layout s @ [next_ref s],
          checkboxes := checkboxes s @ [next_ref s]\<rparr>)"

definition add_label :: "string \<Rightarrow> app \<Rightarrow> app" where
  "add_label txt s =
     s\<lparr>widgets := (widgets s)(next_ref s \<mapsto> QLabel txt),
       next_ref := Suc (next_ref s),
       flags_layout := flags_layout s @ [next_ref s]\<rparr>"

text \<open>Lines 165-179. The state reached when an exception leaves the method is kept: the
  mutations made before the raise are not undone.\<close>

definition show_flag_checkboxes :: "app \<Rightarrow> app \<times> exn option" where
  "show_flag_checkboxes s =
     (case remove_widgets (rev [0..<length (flags_layout s)]) s of
        (s1, Some e) \<Rightarrow> (s1, Some e)
      | (s1, None) \<Rightarrow>
          let s2 = s1\<lparr>checkboxes := []\<rparr>;
              idx = current_index s2
          in (case py_getitem TOOL_FLAGS idx of
                Inl e \<Rightarrow> (s2, Some e)
              | Inr descriptors \<Rightarrow>
                  let s3 = add_checkboxes descriptors s2
                  in if idx = 5
                     then (add_label ''Use the GUI to set all options for PyInstaller visually.'' s3, None)
                     else (s3, None)))"

text \<open>The slot of \<open>currentIndexChanged\<close> (line 136): the combo box has taken the new index
  when the panel is rebuilt.\<close>

definition currentIndexChanged :: "int \<Rightarrow> app \<Rightarrow> app \<times> exn option" where
  "currentIndexChanged i s = show_flag_checkboxes (s\<lparr>current_index := i\<rparr>)"

text \<open>The user ticks or unticks the checkbox behind a reference.\<close>

definition toggle :: "nat \<Rightarrow> app \<Rightarrow> app" where
  "toggle r s =
     (case widgets s r of
        Some (QCheckBox t b) \<Rightarrow> s\<lparr>widgets := (widgets s)(r \<mapsto> QCheckBox t (\<not> b))\<rparr>
      | _ \<Rightarrow> s)"

text \<open>Lines 116-157: the window after \<open>__init__\<close>. The combo box holds six items and shows
  the first; \<open>_init_ui\<close> ends with a call of \<open>show_flag_checkboxes\<close>.\<close>

definition blank_app :: app where
  "blank_app =
     \<lparr>file_path = None,
      status = ''Select a Python script and builder. Then check attributes to use.'',
      current_index = 0,
      widgets = Map.empty,
      next_ref = 0,
      flags_layout = [],
      checkboxes = [],
      delete_later = []\<rparr>"

definition init_app :: app where
  "init_app = fst (show_flag_checkboxes blank_app)"

section \<open>The environment\<close>

text \<open>
  Everything outside the program is a parameter: what importing a module does, how an
  external process ends, what creating a temporary directory and writing a file do, and
  the library functions of \<open>os.path\<close> and the text of a \<open>CalledProcessError\<close>, which depend
  on the platform and the Python version.
\<close>

datatype proc_outcome = Exits int | LaunchRaises exn

record world =
  sys_executable :: string
  import_outcome :: "string \<Rightarrow> exn option"
  process_outcome :: "string list \<Rightarrow> string option \<Rightarrow> proc_outcome"
  mkdtemp_outcome :: "exn + string"
  write_outcome :: "string \<Rightarrow> string \<Rightarrow> exn option"
  called_process_error_str :: "string list \<Rightarrow> int \<Rightarrow> string"
  os_path_basename :: "string \<Rightarrow> string"
  os_path_splitext_root :: "string \<Rightarrow> string"
  os_path_join :: "string \<Rightarrow> string \<Rightarrow> string"

text \<open>What the program does to its environment, in order.\<close>

datatype qobject = MainWindow

datatype effect =
    Import string
  | Run "string list" "string option"
  | Popen "string list"
  | Warning qobject string string
  | Mkdtemp
  | WriteFile string string

text \<open>\<open>__import__(name)\<close>: the empty name is refused with \<open>ValueError\<close> before any module
  is looked up; otherwise the environment decides.\<close>

definition py_import :: "world \<Rightarrow> string \<Rightarrow> exn option" where
  "py_import w name =
     (if name = [] then Some (Exn ValueError ''Empty module name'') else import_outcome w name)"

text \<open>\<open>subprocess.run(cmd, cwd=cwd, check=True)\<close> waits for the process and raises
  \<open>CalledProcessError\<close> on a nonzero exit status; \<open>subprocess.Popen(cmd)\<close> only starts it.\<close>

definition subprocess_run :: "world \<Rightarrow> string list \<Rightarrow> string option \<Rightarrow> exn option" where
  "subprocess_run w cmd cwd =
     (case process_outcome w cmd cwd of
        LaunchRaises e \<Rightarrow> Some e
      | Exits rc \<Rightarrow>
          if rc = 0 then None
          else Some (Exn CalledProcessError (called_process_error_str w cmd rc)))"

definition subprocess_Popen :: "world \<Rightarrow> string list \<Rightarrow> exn option" where
  "subprocess_Popen w cmd =
     (case process_outcome w cmd None of LaunchRaises e \<Rightarrow> Some e | Exits rc \<Rightarrow> None)"

section \<open>The dependency resolver (lines 92-113)\<close>

definition get_install_commands :: "string \<Rightarrow> string" where
  "get_install_commands tool =
     ''\<newline>'' @ tool @ '' is required.\<newline>\<newline>Try these commands:\<newline>    pip install '' @ tool
       @ ''\<newline>or:\<newline>    python -m pip install '' @ tool @ ''\<newline>''"

definition ensure_installed :: "world \<Rightarrow> string \<Rightarrow> qobject option \<Rightarrow> effect list \<times> (exn + bool)" where
  "ensure_installed w tool parent_widget =
     (case py_import w tool of
        None \<Rightarrow> ([Import tool], Inr True)
      | Some e \<Rightarrow>
          if isinstance_ImportError e then
            let cmd = [sys_executable w, ''-m'', ''pip'', ''install'', tool] in
            (case subprocess_run w cmd None of
               None \<Rightarrow> ([Import tool, Run cmd None], Inr True)
             | Some e' \<Rightarrow>
                 if isinstance_Exception e' then
                   (case parent_widget of
                      Some p \<Rightarrow>
                        ([Import tool, Run cmd None,
                          Warning p ''Missing Dependency'' (get_install_commands tool)],
                         Inr False)
                    | None \<Rightarrow> ([Import tool, Run cmd None], Inr False))
                 else ([Import tool, Run cmd None], Inl e'))
          else ([Import tool], Inl e))"

section \<open>The command assembler: \<open>build_exe\<close> (lines 181-256)\<close>

text \<open>Lines 191-195: the tokens of the ticked checkboxes, by position in the catalog row
  of the selected tool. \<open>isChecked()\<close> on a deleted widget raises \<open>RuntimeError\<close>.\<close>

fun collect_flags :: "app \<Rightarrow> int \<Rightarrow> nat \<Rightarrow> nat list \<Rightarrow> string list \<Rightarrow> exn + string list" where
  "collect_flags s method_idx i [] flags = Inr flags"
| "collect_flags s method_idx i (cb # rest) flags =
     (case widgets s cb of
        None \<Rightarrow> Inl (Exn RuntimeError ''wrapped C/C++ object of type QCheckBox has been deleted'')
      | Some (QLabel t) \<Rightarrow> Inl (Exn AttributeError ''QLabel object has no attribute isChecked'')
      | Some (QCheckBox t checked) \<Rightarrow>
          if checked then
            (case py_getitem TOOL_FLAGS method_idx of
               Inl e \<Rightarrow> Inl e
             | Inr row \<Rightarrow>
                 (case py_getitem row (int i) of
                    Inl e \<Rightarrow> Inl e
                  | Inr (flag_or_opt, explanation) \<Rightarrow>
                      collect_flags s method_idx (Suc i) rest (flags @ [flag_or_opt])))
          else collect_flags s method_idx (Suc i) rest flags)"

text \<open>Lines 206-216 and 225-233: the generated build descriptors.\<close>

definition cx_freeze_setup_code :: "world \<Rightarrow> string \<Rightarrow> string list \<Rightarrow> string" where
  \<open>cx_freeze_setup_code w path flags =
     (let base = (if ''base=Win32GUI'' \<in> set flags then Some ''Win32GUI'' else None) in
      ''\<newline>from cx_Freeze import setup, Executable\<newline>setup(\<newline>    name="''
        @ os_path_splitext_root w (os_path_basename w path)
        @ ''",\<newline>    version="0.1",\<newline>    executables=[Executable("'' @ path @ ''"''
        @ (if base = Some ''Win32GUI'' then '', base="Win32GUI"'' else [])
        @ '')]\<newline>)\<newline>'')\<close>

definition py2exe_setup_code :: "string \<Rightarrow> string list \<Rightarrow> string" where
  "py2exe_setup_code path flags =
     (let console = (''console'' \<in> set flags);
          windows = (''windows'' \<in> set flags);
          console = (if \<not> (console \<or> windows) then True else console) in
      ''\<newline>from distutils.core import setup\<newline>import py2exe\<newline>setup(''
        @ (if console then ''console'' else ''windows'')
        @ ''=['' @ [CHR 0x27] @ path @ [CHR 0x27] @ ''])\<newline>'')"

text \<open>Lines 197-254, the body of the \<open>try\<close>: the effects, and either the exception raised
  or the status text set (none when no branch matches the index).\<close>

definition run_tool :: "world \<Rightarrow> string \<Rightarrow> int \<Rightarrow> string list \<Rightarrow> effect list \<times> (exn + string option)" where
  "run_tool w path method_idx flags =
     (if method_idx = 0 then
        let cmd = [sys_executable w, ''-m'', ''nuitka'', path] @ flags in
        (case subprocess_run w cmd None of
           Some e \<Rightarrow> ([Run cmd None], Inl e)
         | None \<Rightarrow> ([Run cmd None], Inr (Some ''EXE built with Nuitka (output folder).'')))
      else if method_idx = 1 then
        let cmd = [sys_executable w, ''-m'', ''PyInstaller'', path] @ flags
                    @ [''--hidden-import=colorama''] in
        (case subprocess_run w cmd None of
           Some e \<Rightarrow> ([Run cmd None], Inl e)
         | None \<Rightarrow> ([Run cmd None], Inr (Some ''EXE built with PyInstaller (dist folder).'')))
      else if method_idx = 2 then
        let setup_code = cx_freeze_setup_code w path flags in
        (case mkdtemp_outcome w of
           Inl e \<Rightarrow> ([Mkdtemp], Inl e)
         | Inr temp_dir \<Rightarrow>
             let setup_path = os_path_join w temp_dir ''setup.py'' in
             (case write_outcome w setup_path setup_code of
                Some e \<Rightarrow> ([Mkdtemp, WriteFile setup_path setup_code], Inl e)
              | None \<Rightarrow>
                  let cmd = [sys_executable w, setup_path, ''build''] in
                  (case subprocess_run w cmd (Some temp_dir) of
                     Some e \<Rightarrow>
                       ([Mkdtemp, WriteFile setup_path setup_code, Run cmd (Some temp_dir)], Inl e)
                   | None \<Rightarrow>
                       ([Mkdtemp, WriteFile setup_path setup_code, Run cmd (Some temp_dir)],
                        Inr (Some ''EXE built with cx_Freeze (build folder in temp dir).'')))))
      else if method_idx = 3 then
        let setup_code = py2exe_setup_code path flags in
        (case mkdtemp_outcome w of
           Inl e \<Rightarrow> ([Mkdtemp], Inl e)
         | Inr temp_dir \<Rightarrow>
             let setup_path = os_path_join w temp_dir ''setup_py2exe.py'' in
             (case write_outcome w setup_path setup_code of
                Some e \<Rightarrow> ([Mkdtemp, WriteFile setup_path setup_code], Inl e)
              | None \<Rightarrow>
                  let cmd = [sys_executable w, setup_path, ''py2exe''] in
                  (case subprocess_run w cmd (Some temp_dir) of
                     Some e \<Rightarrow>
                       ([Mkdtemp, WriteFile setup_path setup_code, Run cmd (Some temp_dir)], Inl e)
                   | None \<Rightarrow>
                       ([Mkdtemp, WriteFile setup_path setup_code, Run cmd (Some temp_dir)],
                        Inr (Some ''EXE built with py2exe (dist folder in temp dir).'')))))
      else if method_idx = 4 then
        let cmd = [''pyoxidizer'', ''init-config'', path] in
        (case subprocess_run w cmd None of
           Some e \<Rightarrow> ([Run cmd None], Inl e)
         | None \<Rightarrow>
             let cmd2 = [''pyoxidizer'', ''build''];
                 cmd2 = (if ''--release'' \<in> set flags then cmd2 @ [''--release''] else cmd2);
                 cmd2 = (if ''--debug'' \<in> set flags then cmd2 @ [''--debug''] else cmd2) in
             (case subprocess_run w cmd2 None of
                Some e \<Rightarrow> ([Run cmd None, Run cmd2 None], Inl e)
              | None \<Rightarrow>
                  ([Run cmd None, Run cmd2 None],
                   Inr (Some ''EXE built with pyoxidizer (see build artifacts).''))))
      else if method_idx = 5 then
        let cmd = [''auto-py-to-exe''] in
        (case subprocess_Popen w cmd of
           Some e \<Rightarrow> ([Popen cmd], Inl e)
         | None \<Rightarrow>
             ([Popen cmd], Inr (Some ''Opened auto-py-to-exe GUI. Use it to build your EXE.'')))
      else ([], Inr None))"

text \<open>Lines 181-256. \<open>not self.file_path\<close> holds for \<open>None\<close> and for the empty string. The
  result is the effects, the window afterwards, and the exception that leaves the method,
  if any.\<close>

definition build_exe :: "world \<Rightarrow> app \<Rightarrow> effect list \<times> app \<times> exn option" where
  "build_exe w s =
     (case file_path s of
        None \<Rightarrow> ([], s\<lparr>status := ''Please select a Python file first.''\<rparr>, None)
      | Some path \<Rightarrow>
          if path = [] then ([], s\<lparr>status := ''Please select a Python file first.''\<rparr>, None)
          else
            let method_idx = current_index s in
            (case py_getitem TOOLS method_idx of
               Inl e \<Rightarrow> ([], s, Some e)
             | Inr (display_name, tool_name) \<Rightarrow>
                 (case ensure_installed w tool_name (Some MainWindow) of
                    (tr, Inl e) \<Rightarrow> (tr, s, Some e)
                  | (tr, Inr False) \<Rightarrow> (tr, s\<lparr>status := tool_name @ '' not available.''\<rparr>, None)
                  | (tr, Inr True) \<Rightarrow>
                      (case collect_flags s method_idx 0 (checkboxes s) [] of
                         Inl e \<Rightarrow> (tr, s, Some e)
                       | Inr flags \<Rightarrow>
                           (case run_tool w path method_idx flags of
                              (tr2, Inr None) \<Rightarrow> (tr @ tr2, s, None)
                            | (tr2, Inr (Some msg)) \<Rightarrow> (tr @ tr2, s\<lparr>status := msg\<rparr>, None)
                            | (tr2, Inl e) \<Rightarrow>
                                if isinstance_Exception e
                                then (tr @ tr2, s\<lparr>status := ''Build failed: '' @ exn_str e\<rparr>, None)
                                else (tr @ tr2, s, Some e))))))"

text \<open>Lines 159-163: the file dialog returns the chosen path, or the empty string when
  it is cancelled.\<close>

definition select_file :: "world \<Rightarrow> string \<Rightarrow> app \<Rightarrow> app" where
  "select_file w file s =
     (if file \<noteq> [] then s\<lparr>file_path := Some file,
                            status := ''Selected: '' @ os_path_basename w file\<rparr>
      else s)"

section \<open>Notions used to state the properties\<close>

text \<open>Whether the widget behind a reference is a checkbox, and whether it is ticked.\<close>

definition is_checkbox :: "app \<Rightarrow> nat \<Rightarrow> bool" where
  "is_checkbox s r = (case widgets s r of Some (QCheckBox t b) \<Rightarrow> True | _ \<Rightarrow> False)"

definition ticked :: "app \<Rightarrow> nat \<Rightarrow> bool" where
  "ticked s r = (case widgets s r of Some (QCheckBox t b) \<Rightarrow> b | _ \<Rightarrow> False)"

text \<open>The panel fits the selected tool: the index is one of the six, and \<open>self.checkboxes\<close>
  holds one live checkbox per flag descriptor of that tool. This is what
  \<open>show_flag_checkboxes\<close> establishes and ticking preserves.\<close>

definition panel_ok :: "app \<Rightarrow> bool" where
  "panel_ok s =
     (0 \<le> current_index s \<and> current_index s < 6 \<and>
      length (checkboxes s) = length (TOOL_FLAGS ! nat (current_index s)) \<and>
      list_all (is_checkbox s) (checkboxes s))"

text \<open>The enabled flag tokens: the tokens of the selected tool's row whose checkbox, at
  the same position, is ticked.\<close>

definition enabled_flags :: "app \<Rightarrow> string list" where
  "enabled_flags s =
     map (fst \<circ> snd)
       (filter (\<lambda>(r, d). ticked s r) (zip (checkboxes s) (TOOL_FLAGS ! nat (current_index s))))"

text \<open>Every reference held by the panel was handed out before \<open>next_ref\<close>.\<close>

definition refs_allocated :: "app \<Rightarrow> bool" where
  "refs_allocated s = list_all (\<lambda>r. r < next_ref s) (flags_layout s @ checkboxes s)"

text \<open>The files a trace writes, and the exception with which a process of the trace
  fails in the environment.\<close>

primrec written_files :: "effect list \<Rightarrow> (string \<times> string) list" where
  "written_files [] = []"
| "written_files (ev # rest) =
     (case ev of WriteFile p c \<Rightarrow> (p, c) # written_files rest | _ \<Rightarrow> written_files rest)"

definition process_failure :: "world \<Rightarrow> effect \<Rightarrow> exn option" where
  "process_failure w ev =
     (case ev of
        Run cmd cwd \<Rightarrow> subprocess_run w cmd cwd
      | Popen cmd \<Rightarrow> subprocess_Popen w cmd
      | _ \<Rightarrow> None)"

subsection \<open>Sample environments and sessions\<close>

text \<open>
  An environment in which three of the packages import, \<open>pip\<close> and most tools succeed,
  Nuitka exits with status 2 and the auto-py-to-exe GUI with status 1; and one in which
  every process exits with status 1. The \<open>os.path\<close> functions are those of a POSIX system,
  for paths without special cases.
\<close>

definition sample_world :: world where
  "sample_world =
     \<lparr>sys_executable = ''/usr/bin/python3'',
      import_outcome = (\<lambda>name.
         if name = ''nuitka'' \<or> name = ''cx_Freeze'' \<or> name = ''py2exe'' then None
         else Some (Exn ModuleNotFoundError (''No module named '' @ name))),
      process_outcome = (\<lambda>cmd cwd.
         if cmd = [''auto-py-to-exe''] then Exits 1
         else if ''nuitka'' \<in> set cmd then Exits 2
         else Exits 0),
      mkdtemp_outcome = Inr ''/tmp/tmpk3x9'',
      write_outcome = (\<lambda>p c. None),
      called_process_error_str = (\<lambda>cmd rc. ''Command returned non-zero exit status''),
      os_path_basename = (\<lambda>p. rev (takeWhile (\<lambda>c. c \<noteq> CHR ''/'') (rev p))),
      os_path_splitext_root = (\<lambda>p.
         if CHR ''.'' \<in> set p then rev (tl (dropWhile (\<lambda>c. c \<noteq> CHR ''.'') (rev p))) else p),
      os_path_join = (\<lambda>d f. d @ ''/'' @ f)\<rparr>"

definition offline_world :: world where
  "offline_world = sample_world\<lparr>process_outcome := (\<lambda>cmd cwd. Exits 1)\<rparr>"

text \<open>An environment like the first, in which \<open>pyoxidizer init-config\<close> exits with
  status 3.\<close>

definition init_fails_world :: world where
  "init_fails_world =
     sample_world\<lparr>process_outcome := (\<lambda>cmd cwd.
        if take 2 cmd = [''pyoxidizer'', ''init-config''] then Exits 3 else Exits 0)\<rparr>"

text \<open>A session: start the window, pick a file, select tool \<open>i\<close>, and click the
  checkboxes at the given positions of the panel.\<close>

definition ticks :: "nat list \<Rightarrow> app \<Rightarrow> app" where
  "ticks positions s = fold (\<lambda>i. toggle (checkboxes s ! i)) positions s"

definition sample_app :: "string \<Rightarrow> int \<Rightarrow> nat list \<Rightarrow> app" where
  "sample_app path i positions =
     ticks positions (fst (currentIndexChanged i (select_file sample_world path init_app)))"

subsection \<open>Windows a user can reach\<close>

text \<open>From the window as constructed, the user picks files, selects one of the six
  tools, ticks and unticks checkboxes of the panel, and starts builds.\<close>

inductive reachable :: "world \<Rightarrow> app \<Rightarrow> bool" for w :: world where
  start: "reachable w init_app"
| pick: "reachable w s \<Longrightarrow> reachable w (select_file w file s)"
| choose: "reachable w s \<Longrightarrow> 0 \<le> i \<Longrightarrow> i \<le> 5 \<Longrightarrow> reachable w (fst (currentIndexChanged i s))"
| tick: "reachable w s \<Longrightarrow> r \<in> set (checkboxes s) \<Longrightarrow> reachable w (toggle r s)"
| build: "reachable w s \<Longrightarrow> reachable w (fst (snd (build_exe w s)))"

section \<open>Auxiliary facts\<close>

lemma py_getitem_nat: "i < length xs \<Longrightarrow> py_getitem xs (int i) = Inr (xs ! i)"
  by (simp add: py_getitem_def)

lemma py_getitem_in_range:
  "0 \<le> i \<Longrightarrow> i < int (length xs) \<Longrightarrow> py_getitem xs i = Inr (xs ! nat i)"
  by (simp add: py_getitem_def)

lemma length_TOOL_FLAGS: "length TOOL_FLAGS = 6"
  by (simp add: TOOL_FLAGS_def)

lemma length_TOOLS: "length TOOLS = 6"
  by (simp add: TOOLS_def)

text \<open>The loop of lines 191-195 computes the enabled flag tokens whenever the panel fits
  the selected tool.\<close>

lemma collect_flags_from:
  assumes "py_getitem TOOL_FLAGS idx = Inr row"
  shows "i + length cbs \<le> length row \<Longrightarrow> list_all (is_checkbox s) cbs \<Longrightarrow>
     collect_flags s idx i cbs acc =
       Inr (acc @ map (fst \<circ> snd) (filter (\<lambda>(r, d). ticked s r) (zip cbs (drop i row))))"
proof (induction cbs arbitrary: i acc)
  case Nil
  then show ?case by simp
next
  case (Cons cb cbs)
  from Cons.prems have i: "i < length row" by simp
  then have d: "drop i row = row ! i # drop (Suc i) row"
    by (simp add: Cons_nth_drop_Suc)
  from Cons.prems obtain t b where w: "widgets s cb = Some (QCheckBox t b)"
    by (auto simp: is_checkbox_def split: option.splits widget.splits)
  have ih: "collect_flags s idx (Suc i) cbs acc' =
       Inr (acc' @ map (fst \<circ> snd) (filter (\<lambda>(r, d). ticked s r) (zip cbs (drop (Suc i) row))))"
    for acc'
    using Cons.IH [of "Suc i" acc'] Cons.prems by simp
  show ?case
    using assms i w
    by (cases "row ! i") (simp add: d ih py_getitem_nat ticked_def)
qed

lemma collect_flags_enabled:
  assumes "panel_ok s"
  shows "collect_flags s (current_index s) 0 (checkboxes s) [] = Inr (enabled_flags s)"
proof -
  from assms have g:
    "py_getitem TOOL_FLAGS (current_index s) = Inr (TOOL_FLAGS ! nat (current_index s))"
    by (simp add: panel_ok_def py_getitem_in_range length_TOOL_FLAGS)
  show ?thesis
    using collect_flags_from [OF g, of 0 "checkboxes s" s "[]"] assms
    by (simp add: panel_ok_def enabled_flags_def)
qed

lemma file_path_init_app: "file_path init_app = None"
  by (simp add: init_app_def show_flag_checkboxes_def blank_app_def py_getitem_def TOOL_FLAGS_def)

section \<open>Building without a file\<close>

text \<open>
  Claim C1. When no source file has been selected (\<open>self.file_path\<close> is \<open>None\<close>),
  \<open>build_exe\<close> has no effect on the environment at all: it imports nothing, starts no
  process, writes no file. It raises nothing, sets the status text to
  "Please select a Python file first." and leaves every other field of the window as it
  was.
\<close>

theorem build_without_file:
  "file_path s = None \<Longrightarrow>
     build_exe w s = ([], s\<lparr>status := ''Please select a Python file first.''\<rparr>, None)"
  by (simp add: build_exe_def)

theorem build_without_file_witness:
  "build_exe sample_world init_app
     = ([], init_app\<lparr>status := ''Please select a Python file first.''\<rparr>, None)"
  using build_without_file [of init_app sample_world] by (simp add: file_path_init_app)

section \<open>What the build passes on, once the tool is available\<close>

lemma written_files_append: "written_files (xs @ ys) = written_files xs @ written_files ys"
  by (induction xs) (auto split: effect.splits)

lemma ensure_installed_no_writes: "written_files (fst (ensure_installed w tool p)) = []"
  by (simp add: ensure_installed_def Let_def split: option.splits)

lemma ensure_installed_True_no_failure:
  assumes "ensure_installed w tool p = (tr, Inr True)" "ev \<in> set tr"
  shows "process_failure w ev = None"
  using assms
  by (auto simp: ensure_installed_def Let_def process_failure_def split: option.splits if_splits)

text \<open>With a file selected, a fitting panel and the tool available, \<open>build_exe\<close> is the
  dependency check followed by the branch of the tool on the enabled flag tokens.\<close>

lemma build_exe_available:
  assumes "file_path s = Some path" "path \<noteq> []" "panel_ok s"
    and "ensure_installed w (snd (TOOLS ! nat (current_index s))) (Some MainWindow) = (tr, Inr True)"
  shows "build_exe w s =
     (case run_tool w path (current_index s) (enabled_flags s) of
        (tr2, Inr None) \<Rightarrow> (tr @ tr2, s, None)
      | (tr2, Inr (Some msg)) \<Rightarrow> (tr @ tr2, s\<lparr>status := msg\<rparr>, None)
      | (tr2, Inl e) \<Rightarrow>
          if isinstance_Exception e
          then (tr @ tr2, s\<lparr>status := ''Build failed: '' @ exn_str e\<rparr>, None)
          else (tr @ tr2, s, Some e))"
proof -
  from assms(3) have "py_getitem TOOLS (current_index s) = Inr (TOOLS ! nat (current_index s))"
    by (simp add: panel_ok_def py_getitem_in_range length_TOOLS)
  then show ?thesis
    using assms(1,2,4) collect_flags_enabled [OF assms(3)]
    by (cases "TOOLS ! nat (current_index s)") (simp add: build_exe_def)
qed

lemma list4: "length xs = 4 \<Longrightarrow> \<exists>a b c d. xs = [a, b, c, d]"
  by (auto simp: eval_nat_numeral length_Suc_conv)

subsection \<open>py2exe: console or windowed\<close>

lemma enabled_flags_py2exe:
  assumes "current_index s = 3" "panel_ok s"
  shows "enabled_flags s =
     (if ticked s (checkboxes s ! 0) then [''console''] else []) @
     (if ticked s (checkboxes s ! 1) then [''windows''] else []) @
     (if ticked s (checkboxes s ! 2) then [''bundle_files=1''] else []) @
     (if ticked s (checkboxes s ! 3) then [''compressed=True''] else [])"
proof -
  from assms have "length (checkboxes s) = 4"
    by (simp add: panel_ok_def TOOL_FLAGS_def)
  then obtain a b c d where "checkboxes s = [a, b, c, d]"
    using list4 by blast
  then show ?thesis
    using assms(1) by (simp add: enabled_flags_def TOOL_FLAGS_def)
qed

text \<open>
  Claim C2. With tool index 3 (py2exe) selected, a file chosen, the package available and
  a temporary directory created, the build writes exactly one file, \<open>setup_py2exe.py\<close> in
  that directory, and for every combination of ticked checkboxes its text calls
  \<open>setup(windows=[...])\<close> when the "windows" box (position 1) is ticked and the "console"
  box (position 0) is not, and \<open>setup(console=[...])\<close> in every other case: neither box
  ticked, "console" alone, or both. The boxes at positions 2 and 3 have no influence.
\<close>

theorem py2exe_descriptor_mode:
  assumes "current_index s = 3" "panel_ok s" "file_path s = Some path" "path \<noteq> []"
    and "ensure_installed w ''py2exe'' (Some MainWindow) = (tr, Inr True)"
    and "mkdtemp_outcome w = Inr temp_dir"
  shows "written_files (fst (build_exe w s)) =
     [(os_path_join w temp_dir ''setup_py2exe.py'',
       ''\<newline>from distutils.core import setup\<newline>import py2exe\<newline>setup(''
         @ (if \<not> ticked s (checkboxes s ! 0) \<and> ticked s (checkboxes s ! 1)
            then ''windows'' else ''console'')
         @ ''=['' @ [CHR 0x27] @ path @ [CHR 0x27] @ ''])\<newline>'')]"
proof -
  have t: "ensure_installed w (snd (TOOLS ! nat (current_index s))) (Some MainWindow) = (tr, Inr True)"
    using assms(1,5) by (simp add: TOOLS_def)
  have nw: "written_files tr = []"
    using ensure_installed_no_writes [of w "''py2exe''" "Some MainWindow"] assms(5) by simp
  show ?thesis
    unfolding build_exe_available [OF assms(3,4,2) t] enabled_flags_py2exe [OF assms(1,2)]
    using assms(1,6) nw
    by (simp add: run_tool_def py2exe_setup_code_def Let_def written_files_append
          split: option.splits)
qed

lemma sample_py2exe_state:
  "current_index (sample_app ''/home/u/app.py'' 3 [1]) = 3"
  "panel_ok (sample_app ''/home/u/app.py'' 3 [1])"
  "file_path (sample_app ''/home/u/app.py'' 3 [1]) = Some ''/home/u/app.py''"
  "\<not> ticked (sample_app ''/home/u/app.py'' 3 [1]) (checkboxes (sample_app ''/home/u/app.py'' 3 [1]) ! 0)"
  "ticked (sample_app ''/home/u/app.py'' 3 [1]) (checkboxes (sample_app ''/home/u/app.py'' 3 [1]) ! 1)"
  by code_simp+

lemma sample_py2exe_available:
  "ensure_installed sample_world ''py2exe'' (Some MainWindow) = ([Import ''py2exe''], Inr True)"
  by (simp add: ensure_installed_def py_import_def sample_world_def)

lemma sample_mkdtemp: "mkdtemp_outcome sample_world = Inr ''/tmp/tmpk3x9''"
  by (simp add: sample_world_def)

lemma sample_path_nonempty: "''/home/u/app.py'' \<noteq> []"
  by simp

theorem py2exe_descriptor_mode_witness:
  "written_files (fst (build_exe sample_world (sample_app ''/home/u/app.py'' 3 [1]))) =
     [(''/tmp/tmpk3x9/setup_py2exe.py'',
       ''\<newline>from distutils.core import setup\<newline>import py2exe\<newline>setup(windows=[''
         @ [CHR 0x27] @ ''/home/u/app.py'' @ [CHR 0x27] @ ''])\<newline>'')]"
proof -
  have j: "os_path_join sample_world ''/tmp/tmpk3x9'' ''setup_py2exe.py''
             = ''/tmp/tmpk3x9/setup_py2exe.py''"
    by (simp add: sample_world_def)
  show ?thesis
    unfolding py2exe_descriptor_mode
      [OF sample_py2exe_state(1,2,3) sample_path_nonempty sample_py2exe_available sample_mkdtemp] j
    by (simp only: sample_py2exe_state(4,5) simp_thms if_True) simp
qed

subsection \<open>cx_Freeze: the base argument\<close>

lemma enabled_flags_cx_freeze:
  assumes "current_index s = 2" "panel_ok s"
  shows "enabled_flags s =
     (if ticked s (checkboxes s ! 0) then [''base=None''] else []) @
     (if ticked s (checkboxes s ! 1) then [''base=Win32GUI''] else []) @
     (if ticked s (checkboxes s ! 2) then [''include_files''] else []) @
     (if ticked s (checkboxes s ! 3) then [''silent=True''] else [])"
proof -
  from assms have "length (checkboxes s) = 4"
    by (simp add: panel_ok_def TOOL_FLAGS_def)
  then obtain a b c d where "checkboxes s = [a, b, c, d]"
    using list4 by blast
  then show ?thesis
    using assms(1) by (simp add: enabled_flags_def TOOL_FLAGS_def)
qed

text \<open>The descriptor written for cx_Freeze, in terms of the GUI-base checkbox alone.\<close>

lemma cx_freeze_written:
  assumes "current_index s = 2" "panel_ok s" "file_path s = Some path" "path \<noteq> []"
    and "ensure_installed w ''cx_Freeze'' (Some MainWindow) = (tr, Inr True)"
    and "mkdtemp_outcome w = Inr temp_dir"
  shows \<open>written_files (fst (build_exe w s)) =
     [(os_path_join w temp_dir ''setup.py'',
       ''\<newline>from cx_Freeze import setup, Executable\<newline>setup(\<newline>    name="''
         @ os_path_splitext_root w (os_path_basename w path)
         @ ''",\<newline>    version="0.1",\<newline>    executables=[Executable("'' @ path @ ''"''
         @ (if ticked s (checkboxes s ! 1) then '', base="Win32GUI"'' else [])
         @ '')]\<newline>)\<newline>'')]\<close>
proof -
  have t: "ensure_installed w (snd (TOOLS ! nat (current_index s))) (Some MainWindow) = (tr, Inr True)"
    using assms(1,5) by (simp add: TOOLS_def)
  have nw: "written_files tr = []"
    using ensure_installed_no_writes [of w "''cx_Freeze''" "Some MainWindow"] assms(5) by simp
  show ?thesis
    unfolding build_exe_available [OF assms(3,4,2) t] enabled_flags_cx_freeze [OF assms(1,2)]
    using assms(1,6) nw
    by (simp add: run_tool_def cx_freeze_setup_code_def Let_def written_files_append
          split: option.splits)
qed

text \<open>
  Claim C5, as the code has it. With tool index 2 (cx_Freeze) selected, a file chosen,
  the package available and a temporary directory created, the build writes exactly one
  file, \<open>setup.py\<close> in that directory. For every combination of ticked checkboxes and
  every file path, the \<open>Executable(...)\<close> entry of its text is an opening double quote,
  the path as it is, a closing double quote, and then \<open>, base="Win32GUI"\<close> when the
  "base=Win32GUI" token is enabled and nothing when it is not: the code appends the
  windowed-base argument after the path exactly when the token is enabled. The
  statement is about what the code appends; it says nothing about what the characters
  of the path themselves amount to in the descriptor.
\<close>

theorem cx_freeze_base_iff_gui_flag:
  assumes "current_index s = 2" "panel_ok s" "file_path s = Some path" "path \<noteq> []"
    and "ensure_installed w ''cx_Freeze'' (Some MainWindow) = (tr, Inr True)"
    and "mkdtemp_outcome w = Inr temp_dir"
  shows \<open>written_files (fst (build_exe w s)) =
     [(os_path_join w temp_dir ''setup.py'',
       ''\<newline>from cx_Freeze import setup, Executable\<newline>setup(\<newline>    name="''
         @ os_path_splitext_root w (os_path_basename w path)
         @ ''",\<newline>    version="0.1",\<newline>    executables=[Executable("'' @ path
         @ (if ''base=Win32GUI'' \<in> set (enabled_flags s)
            then ''", base="Win32GUI")]\<newline>)\<newline>''
            else ''")]\<newline>)\<newline>''))]\<close>
  unfolding cx_freeze_written [OF assms] enabled_flags_cx_freeze [OF assms(1,2)]
  by simp

lemma sample_cx_freeze_state:
  "current_index (sample_app ''/home/u/app.py'' 2 [1]) = 2"
  "panel_ok (sample_app ''/home/u/app.py'' 2 [1])"
  "file_path (sample_app ''/home/u/app.py'' 2 [1]) = Some ''/home/u/app.py''"
  "''base=Win32GUI'' \<in> set (enabled_flags (sample_app ''/home/u/app.py'' 2 [1]))"
  by code_simp+

lemma sample_cx_freeze_available:
  "ensure_installed sample_world ''cx_Freeze'' (Some MainWindow)
     = ([Import ''cx_Freeze''], Inr True)"
  by (simp add: ensure_installed_def py_import_def sample_world_def)

lemma sample_setup_path:
  "os_path_join sample_world ''/tmp/tmpk3x9'' ''setup.py'' = ''/tmp/tmpk3x9/setup.py''"
  "os_path_splitext_root sample_world (os_path_basename sample_world ''/home/u/app.py'') = ''app''"
  by (simp_all add: sample_world_def)

theorem cx_freeze_base_iff_gui_flag_witness:
  \<open>written_files (fst (build_exe sample_world (sample_app ''/home/u/app.py'' 2 [1]))) =
     [(''/tmp/tmpk3x9/setup.py'',
       ''\<newline>from cx_Freeze import setup, Executable\<newline>setup(\<newline>    name="app",\<newline>    version="0.1",\<newline>    executables=[Executable("/home/u/app.py", base="Win32GUI")]\<newline>)\<newline>'')]\<close>
  unfolding cx_freeze_base_iff_gui_flag
    [OF sample_cx_freeze_state(1,2,3) sample_path_nonempty sample_cx_freeze_available sample_mkdtemp]
    sample_setup_path
  by (simp only: sample_cx_freeze_state(4) if_True) simp

text \<open>The claim as stated, that for every selected file the descriptor omits any base
  argument when the token is not enabled, fails: the path is pasted between the quotes
  unescaped (lines 212-214), so for a file in a directory whose name holds a double
  quote the entry of the descriptor reads \<open>Executable("/home/u/d", base="Win32GUI")\<close>
  although no box is ticked.\<close>

lemma sample_quoted_path_state:
  \<open>current_index (sample_app ''/home/u/d", base="Win32GUI")]) or (0 #/app.py'' 2 []) = 2\<close>
  \<open>panel_ok (sample_app ''/home/u/d", base="Win32GUI")]) or (0 #/app.py'' 2 [])\<close>
  \<open>file_path (sample_app ''/home/u/d", base="Win32GUI")]) or (0 #/app.py'' 2 [])
     = Some ''/home/u/d", base="Win32GUI")]) or (0 #/app.py''\<close>
  \<open>\<not> ticked (sample_app ''/home/u/d", base="Win32GUI")]) or (0 #/app.py'' 2 [])
         (checkboxes (sample_app ''/home/u/d", base="Win32GUI")]) or (0 #/app.py'' 2 []) ! 1)\<close>
  \<open>''base=Win32GUI''
     \<notin> set (enabled_flags (sample_app ''/home/u/d", base="Win32GUI")]) or (0 #/app.py'' 2 []))\<close>
  by code_simp+

lemma sample_quoted_path_name:
  \<open>''/home/u/d", base="Win32GUI")]) or (0 #/app.py'' \<noteq> []\<close>
  \<open>os_path_splitext_root sample_world
      (os_path_basename sample_world ''/home/u/d", base="Win32GUI")]) or (0 #/app.py'') = ''app''\<close>
  by (simp_all add: sample_world_def)

theorem cx_freeze_quoted_path_counterexample:
  \<open>''base=Win32GUI''
     \<notin> set (enabled_flags (sample_app ''/home/u/d", base="Win32GUI")]) or (0 #/app.py'' 2 []))
   \<and> written_files
       (fst (build_exe sample_world
              (sample_app ''/home/u/d", base="Win32GUI")]) or (0 #/app.py'' 2 []))) =
     [(''/tmp/tmpk3x9/setup.py'',
       ''\<newline>from cx_Freeze import setup, Executable\<newline>setup(\<newline>    name="app",\<newline>    version="0.1",\<newline>    executables=[Executable("/home/u/d", base="Win32GUI")]) or (0 #/app.py")]\<newline>)\<newline>'')]\<close>
proof
  show \<open>''base=Win32GUI''
     \<notin> set (enabled_flags (sample_app ''/home/u/d", base="Win32GUI")]) or (0 #/app.py'' 2 []))\<close>
    by (rule sample_quoted_path_state(5))
next
  show \<open>written_files
       (fst (build_exe sample_world
              (sample_app ''/home/u/d", base="Win32GUI")]) or (0 #/app.py'' 2 []))) =
     [(''/tmp/tmpk3x9/setup.py'',
       ''\<newline>from cx_Freeze import setup, Executable\<newline>setup(\<newline>    name="app",\<newline>    version="0.1",\<newline>    executables=[Executable("/home/u/d", base="Win32GUI")]) or (0 #/app.py")]\<newline>)\<newline>'')]\<close>
    unfolding cx_freeze_written
      [OF sample_quoted_path_state(1,2,3) sample_quoted_path_name(1) sample_cx_freeze_available
          sample_mkdtemp]
      sample_setup_path(1) sample_quoted_path_name(2)
    by (simp only: sample_quoted_path_state(4) if_False) simp
qed

text \<open>
  Claim C10. With tool index 2 (cx_Freeze), when the "base=None" box (position 0) and the
  "base=Win32GUI" box (position 1) are both ticked, the \<open>Executable(...)\<close> entry of the
  written descriptor carries \<open>, base="Win32GUI"\<close>; when "base=None" is ticked and
  "base=Win32GUI" is not, the entry is the quoted path alone, with no base argument.
\<close>

theorem cx_freeze_gui_base_wins:
  assumes "current_index s = 2" "panel_ok s" "file_path s = Some path" "path \<noteq> []"
    and "ensure_installed w ''cx_Freeze'' (Some MainWindow) = (tr, Inr True)"
    and "mkdtemp_outcome w = Inr temp_dir"
    and "ticked s (checkboxes s ! 0)"
  shows \<open>(ticked s (checkboxes s ! 1) \<longrightarrow>
       written_files (fst (build_exe w s)) =
         [(os_path_join w temp_dir ''setup.py'',
           ''\<newline>from cx_Freeze import setup, Executable\<newline>setup(\<newline>    name="''
             @ os_path_splitext_root w (os_path_basename w path)
             @ ''",\<newline>    version="0.1",\<newline>    executables=[Executable("'' @ path
             @ ''", base="Win32GUI")]\<newline>)\<newline>'')])
     \<and> (\<not> ticked s (checkboxes s ! 1) \<longrightarrow>
       written_files (fst (build_exe w s)) =
         [(os_path_join w temp_dir ''setup.py'',
           ''\<newline>from cx_Freeze import setup, Executable\<newline>setup(\<newline>    name="''
             @ os_path_splitext_root w (os_path_basename w path)
             @ ''",\<newline>    version="0.1",\<newline>    executables=[Executable("'' @ path
             @ ''")]\<newline>)\<newline>'')])\<close>
  unfolding cx_freeze_written [OF assms(1-6)]
  by simp

lemma sample_both_bases_state:
  "current_index (sample_app ''/home/u/app.py'' 2 [0, 1]) = 2"
  "panel_ok (sample_app ''/home/u/app.py'' 2 [0, 1])"
  "file_path (sample_app ''/home/u/app.py'' 2 [0, 1]) = Some ''/home/u/app.py''"
  "ticked (sample_app ''/home/u/app.py'' 2 [0, 1]) (checkboxes (sample_app ''/home/u/app.py'' 2 [0, 1]) ! 0)"
  "ticked (sample_app ''/home/u/app.py'' 2 [0, 1]) (checkboxes (sample_app ''/home/u/app.py'' 2 [0, 1]) ! 1)"
  by code_simp+

lemma sample_console_base_state:
  "current_index (sample_app ''/home/u/app.py'' 2 [0]) = 2"
  "panel_ok (sample_app ''/home/u/app.py'' 2 [0])"
  "file_path (sample_app ''/home/u/app.py'' 2 [0]) = Some ''/home/u/app.py''"
  "ticked (sample_app ''/home/u/app.py'' 2 [0]) (checkboxes (sample_app ''/home/u/app.py'' 2 [0]) ! 0)"
  "\<not> ticked (sample_app ''/home/u/app.py'' 2 [0]) (checkboxes (sample_app ''/home/u/app.py'' 2 [0]) ! 1)"
  by code_simp+

theorem cx_freeze_gui_base_wins_witness:
  \<open>written_files (fst (build_exe sample_world (sample_app ''/home/u/app.py'' 2 [0, 1]))) =
     [(''/tmp/tmpk3x9/setup.py'',
       ''\<newline>from cx_Freeze import setup, Executable\<newline>setup(\<newline>    name="app",\<newline>    version="0.1",\<newline>    executables=[Executable("/home/u/app.py", base="Win32GUI")]\<newline>)\<newline>'')]
   \<and> written_files (fst (build_exe sample_world (sample_app ''/home/u/app.py'' 2 [0]))) =
     [(''/tmp/tmpk3x9/setup.py'',
       ''\<newline>from cx_Freeze import setup, Executable\<newline>setup(\<newline>    name="app",\<newline>    version="0.1",\<newline>    executables=[Executable("/home/u/app.py")]\<newline>)\<newline>'')]\<close>
proof
  note both = cx_freeze_gui_base_wins
    [OF sample_both_bases_state(1,2,3) sample_path_nonempty sample_cx_freeze_available
        sample_mkdtemp sample_both_bases_state(4)]
  from both sample_both_bases_state(5) have
    \<open>written_files (fst (build_exe sample_world (sample_app ''/home/u/app.py'' 2 [0, 1]))) =
         [(os_path_join sample_world ''/tmp/tmpk3x9'' ''setup.py'',
           ''\<newline>from cx_Freeze import setup, Executable\<newline>setup(\<newline>    name="''
             @ os_path_splitext_root sample_world (os_path_basename sample_world ''/home/u/app.py'')
             @ ''",\<newline>    version="0.1",\<newline>    executables=[Executable("'' @ ''/home/u/app.py''
             @ ''", base="Win32GUI")]\<newline>)\<newline>'')]\<close>
    by blast
  then show \<open>written_files (fst (build_exe sample_world (sample_app ''/home/u/app.py'' 2 [0, 1]))) =
     [(''/tmp/tmpk3x9/setup.py'',
       ''\<newline>from cx_Freeze import setup, Executable\<newline>setup(\<newline>    name="app",\<newline>    version="0.1",\<newline>    executables=[Executable("/home/u/app.py", base="Win32GUI")]\<newline>)\<newline>'')]\<close>
    unfolding sample_setup_path by simp
next
  note alone = cx_freeze_gui_base_wins
    [OF sample_console_base_state(1,2,3) sample_path_nonempty sample_cx_freeze_available
        sample_mkdtemp sample_console_base_state(4)]
  from alone sample_console_base_state(5) have
    \<open>written_files (fst (build_exe sample_world (sample_app ''/home/u/app.py'' 2 [0]))) =
         [(os_path_join sample_world ''/tmp/tmpk3x9'' ''setup.py'',
           ''\<newline>from cx_Freeze import setup, Executable\<newline>setup(\<newline>    name="''
             @ os_path_splitext_root sample_world (os_path_basename sample_world ''/home/u/app.py'')
             @ ''",\<newline>    version="0.1",\<newline>    executables=[Executable("'' @ ''/home/u/app.py''
             @ ''")]\<newline>)\<newline>'')]\<close>
    by blast
  then show \<open>written_files (fst (build_exe sample_world (sample_app ''/home/u/app.py'' 2 [0]))) =
     [(''/tmp/tmpk3x9/setup.py'',
       ''\<newline>from cx_Freeze import setup, Executable\<newline>setup(\<newline>    name="app",\<newline>    version="0.1",\<newline>    executables=[Executable("/home/u/app.py")]\<newline>)\<newline>'')]\<close>
    unfolding sample_setup_path by simp
qed

subsection \<open>PyInstaller: the argument vector\<close>

lemma enabled_flags_onefile_only:
  assumes "current_index s = 1"
    and "map (ticked s) (checkboxes s) = [True, False, False, False, False, False]"
  shows "enabled_flags s = [''--onefile'']"
proof -
  from assms(2) obtain a b c d e f where
    "checkboxes s = [a, b, c, d, e, f]" "ticked s a" "\<not> ticked s b" "\<not> ticked s c"
    "\<not> ticked s d" "\<not> ticked s e" "\<not> ticked s f"
    by (auto simp: map_eq_Cons_conv)
  then show ?thesis
    using assms(1) by (simp add: enabled_flags_def TOOL_FLAGS_def)
qed

text \<open>
  Claim C4. With tool index 1 (PyInstaller) selected, a file chosen and the package
  available, the build launches, after the dependency check, exactly one process, whose
  argument vector is the interpreter, \<open>-m\<close>, \<open>PyInstaller\<close>, the source path, the enabled
  flag tokens in catalog order, and last \<open>--hidden-import=colorama\<close>, whatever the
  enabled flags are. In particular, with the file \<open>app.py\<close> and the "--onefile" box alone
  ticked, the vector is the interpreter followed by \<open>-m PyInstaller app.py --onefile
  --hidden-import=colorama\<close>.
\<close>

theorem pyinstaller_argument_vector:
  assumes "current_index s = 1" "panel_ok s" "file_path s = Some path" "path \<noteq> []"
    and "ensure_installed w ''pyinstaller'' (Some MainWindow) = (tr, Inr True)"
  shows "fst (build_exe w s) =
       tr @ [Run ([sys_executable w, ''-m'', ''PyInstaller'', path] @ enabled_flags s
                    @ [''--hidden-import=colorama'']) None]
     \<and> (path = ''app.py'' \<and>
          map (ticked s) (checkboxes s) = [True, False, False, False, False, False] \<longrightarrow>
        fst (build_exe w s) =
          tr @ [Run [sys_executable w, ''-m'', ''PyInstaller'', ''app.py'', ''--onefile'',
                     ''--hidden-import=colorama''] None])"
proof -
  have t: "ensure_installed w (snd (TOOLS ! nat (current_index s))) (Some MainWindow) = (tr, Inr True)"
    using assms(1,5) by (simp add: TOOLS_def)
  have general: "fst (build_exe w s) =
       tr @ [Run ([sys_executable w, ''-m'', ''PyInstaller'', path] @ enabled_flags s
                    @ [''--hidden-import=colorama'']) None]"
    unfolding build_exe_available [OF assms(3,4,2) t]
    using assms(1) by (simp add: run_tool_def Let_def split: option.splits)
  show ?thesis
    using general enabled_flags_onefile_only [OF assms(1)] by simp
qed

lemma sample_pyinstaller_state:
  "current_index (sample_app ''app.py'' 1 [0]) = 1"
  "panel_ok (sample_app ''app.py'' 1 [0])"
  "file_path (sample_app ''app.py'' 1 [0]) = Some ''app.py''"
  "map (ticked (sample_app ''app.py'' 1 [0])) (checkboxes (sample_app ''app.py'' 1 [0]))
     = [True, False, False, False, False, False]"
  by code_simp+

lemma sample_pyinstaller_available:
  "ensure_installed sample_world ''pyinstaller'' (Some MainWindow)
     = ([Import ''pyinstaller'',
         Run [''/usr/bin/python3'', ''-m'', ''pip'', ''install'', ''pyinstaller''] None],
        Inr True)"
  by (simp add: ensure_installed_def py_import_def sample_world_def subprocess_run_def
        isinstance_ImportError_def)

theorem pyinstaller_argument_vector_witness:
  "fst (build_exe sample_world (sample_app ''app.py'' 1 [0])) =
     [Import ''pyinstaller'',
      Run [''/usr/bin/python3'', ''-m'', ''pip'', ''install'', ''pyinstaller''] None,
      Run [''/usr/bin/python3'', ''-m'', ''PyInstaller'', ''app.py'', ''--onefile'',
           ''--hidden-import=colorama''] None]"
proof -
  have ne: "''app.py'' \<noteq> []"
    by simp
  have x: "sys_executable sample_world = ''/usr/bin/python3''"
    by (simp add: sample_world_def)
  from pyinstaller_argument_vector
         [OF sample_pyinstaller_state(1,2,3) ne sample_pyinstaller_available]
       sample_pyinstaller_state(4)
  have "fst (build_exe sample_world (sample_app ''app.py'' 1 [0])) =
          [Import ''pyinstaller'',
           Run [''/usr/bin/python3'', ''-m'', ''pip'', ''install'', ''pyinstaller''] None]
          @ [Run [sys_executable sample_world, ''-m'', ''PyInstaller'', ''app.py'', ''--onefile'',
                  ''--hidden-import=colorama''] None]"
    by blast
  then show ?thesis
    unfolding x by simp
qed

subsection \<open>pyoxidizer: two steps\<close>

lemma list3: "length xs = 3 \<Longrightarrow> \<exists>a b c. xs = [a, b, c]"
  by (auto simp: eval_nat_numeral length_Suc_conv)

lemma enabled_flags_pyoxidizer:
  assumes "current_index s = 4" "panel_ok s"
  shows "enabled_flags s =
     (if ticked s (checkboxes s ! 0) then [''single_binary=True''] else []) @
     (if ticked s (checkboxes s ! 1) then [''--release''] else []) @
     (if ticked s (checkboxes s ! 2) then [''--debug''] else [])"
proof -
  from assms have "length (checkboxes s) = 3"
    by (simp add: panel_ok_def TOOL_FLAGS_def)
  then obtain a b c where "checkboxes s = [a, b, c]"
    using list3 by blast
  then show ?thesis
    using assms(1) by (simp add: enabled_flags_def TOOL_FLAGS_def)
qed

text \<open>
  Claim C9, as the code has it. With tool index 4 (pyoxidizer) selected, a file chosen
  and the package available, the processes of the build after the dependency check are:
  first \<open>pyoxidizer init-config\<close> with the source path and nothing else, whatever is
  ticked; then, if and only if that command has completed with exit status 0,
  \<open>pyoxidizer build\<close>, followed by \<open>--release\<close> exactly when the "--release" box
  (position 1) is ticked and by \<open>--debug\<close> exactly when the "--debug" box (position 2) is
  ticked. The "single_binary=True" box (position 0) reaches neither command. When the
  first command raises or exits nonzero, the build is that one command: the second is
  not started.
\<close>

theorem pyoxidizer_two_steps:
  assumes "current_index s = 4" "panel_ok s" "file_path s = Some path" "path \<noteq> []"
    and "ensure_installed w ''pyoxidizer'' (Some MainWindow) = (tr, Inr True)"
  shows "fst (build_exe w s) =
       tr @ Run [''pyoxidizer'', ''init-config'', path] None
          # (if subprocess_run w [''pyoxidizer'', ''init-config'', path] None = None
             then [Run ([''pyoxidizer'', ''build'']
                          @ (if ticked s (checkboxes s ! 1) then [''--release''] else [])
                          @ (if ticked s (checkboxes s ! 2) then [''--debug''] else [])) None]
             else [])"
proof -
  have t: "ensure_installed w (snd (TOOLS ! nat (current_index s))) (Some MainWindow) = (tr, Inr True)"
    using assms(1,5) by (simp add: TOOLS_def)
  show ?thesis
    unfolding build_exe_available [OF assms(3,4,2) t] enabled_flags_pyoxidizer [OF assms(1,2)]
    using assms(1) by (simp add: run_tool_def Let_def split: option.splits)
qed

lemma sample_pyoxidizer_state:
  "current_index (sample_app ''/home/u/app.py'' 4 [0, 1]) = 4"
  "panel_ok (sample_app ''/home/u/app.py'' 4 [0, 1])"
  "file_path (sample_app ''/home/u/app.py'' 4 [0, 1]) = Some ''/home/u/app.py''"
  "ticked (sample_app ''/home/u/app.py'' 4 [0, 1]) (checkboxes (sample_app ''/home/u/app.py'' 4 [0, 1]) ! 1)"
  "\<not> ticked (sample_app ''/home/u/app.py'' 4 [0, 1]) (checkboxes (sample_app ''/home/u/app.py'' 4 [0, 1]) ! 2)"
  by code_simp+

lemma sample_pyoxidizer_available:
  "ensure_installed sample_world ''pyoxidizer'' (Some MainWindow)
     = ([Import ''pyoxidizer'',
         Run [''/usr/bin/python3'', ''-m'', ''pip'', ''install'', ''pyoxidizer''] None],
        Inr True)"
  by (simp add: ensure_installed_def py_import_def sample_world_def subprocess_run_def
        isinstance_ImportError_def)

theorem pyoxidizer_two_steps_witness:
  "fst (build_exe sample_world (sample_app ''/home/u/app.py'' 4 [0, 1])) =
     [Import ''pyoxidizer'',
      Run [''/usr/bin/python3'', ''-m'', ''pip'', ''install'', ''pyoxidizer''] None,
      Run [''pyoxidizer'', ''init-config'', ''/home/u/app.py''] None,
      Run [''pyoxidizer'', ''build'', ''--release''] None]"
proof -
  have ok: "subprocess_run sample_world [''pyoxidizer'', ''init-config'', ''/home/u/app.py''] None = None"
    by (simp add: subprocess_run_def sample_world_def)
  show ?thesis
    unfolding pyoxidizer_two_steps
      [OF sample_pyoxidizer_state(1,2,3) sample_path_nonempty sample_pyoxidizer_available]
    by (simp only: sample_pyoxidizer_state(4,5) ok simp_thms if_True if_False) simp
qed

text \<open>The claim as stated, that every build with tool 4 is a two-step invocation, fails:
  \<open>subprocess.run(cmd, check=True)\<close> on line 243 raises when \<open>init-config\<close> exits with
  status 3, and the build command of lines 244-249 is never started, although
  "--release" and "--debug" are ticked.\<close>

lemma sample_init_fails_state:
  "file_path (sample_app ''/home/u/app.py'' 4 [1, 2]) = Some ''/home/u/app.py''"
  "panel_ok (sample_app ''/home/u/app.py'' 4 [1, 2])"
  "current_index (sample_app ''/home/u/app.py'' 4 [1, 2]) = 4"
  "enabled_flags (sample_app ''/home/u/app.py'' 4 [1, 2]) = [''--release'', ''--debug'']"
  by code_simp+

lemma init_fails_pyoxidizer_available:
  "ensure_installed init_fails_world
     (snd (TOOLS ! nat (current_index (sample_app ''/home/u/app.py'' 4 [1, 2])))) (Some MainWindow)
     = ([Import ''pyoxidizer'',
         Run [''/usr/bin/python3'', ''-m'', ''pip'', ''install'', ''pyoxidizer''] None],
        Inr True)"
  unfolding sample_init_fails_state(3)
  by (simp add: TOOLS_def ensure_installed_def py_import_def init_fails_world_def sample_world_def
        subprocess_run_def isinstance_ImportError_def)

theorem pyoxidizer_single_step_counterexample:
  "build_exe init_fails_world (sample_app ''/home/u/app.py'' 4 [1, 2]) =
     ([Import ''pyoxidizer'',
       Run [''/usr/bin/python3'', ''-m'', ''pip'', ''install'', ''pyoxidizer''] None,
       Run [''pyoxidizer'', ''init-config'', ''/home/u/app.py''] None],
      (sample_app ''/home/u/app.py'' 4 [1, 2])
        \<lparr>status := ''Build failed: Command returned non-zero exit status''\<rparr>,
      None)"
  unfolding build_exe_available
    [OF sample_init_fails_state(1) sample_path_nonempty sample_init_fails_state(2)
        init_fails_pyoxidizer_available]
    sample_init_fails_state(3,4)
  by (simp add: run_tool_def subprocess_run_def init_fails_world_def sample_world_def
        isinstance_Exception_def)

section \<open>The dependency resolver\<close>

text \<open>
  Claim C8, as the code has it. For every package name and either kind of caller:
  when importing the package succeeds, \<open>ensure_installed\<close> returns true and starts no
  process; when the import raises \<open>ImportError\<close> and \<open>pip install\<close> exits with status 0, it
  returns true; when the import raises \<open>ImportError\<close> and \<open>pip install\<close> exits nonzero or
  raises an \<open>Exception\<close>, it returns false, after a "Missing Dependency" warning when a
  parent widget is supplied and without one otherwise. An exception reaches the caller
  in two cases only: the import raised something that is not an \<open>ImportError\<close>, or the
  installer raised something that is not an \<open>Exception\<close>.
\<close>

theorem ensure_installed_contract:
  "(py_import w tool = None \<longrightarrow> ensure_installed w tool parent = ([Import tool], Inr True))
   \<and> (\<forall>e. py_import w tool = Some e \<and> isinstance_ImportError e \<and>
          subprocess_run w [sys_executable w, ''-m'', ''pip'', ''install'', tool] None = None \<longrightarrow>
        ensure_installed w tool parent =
          ([Import tool, Run [sys_executable w, ''-m'', ''pip'', ''install'', tool] None], Inr True))
   \<and> (\<forall>e e'. py_import w tool = Some e \<and> isinstance_ImportError e \<and>
          subprocess_run w [sys_executable w, ''-m'', ''pip'', ''install'', tool] None = Some e' \<and>
          isinstance_Exception e' \<longrightarrow>
        ensure_installed w tool parent =
          ([Import tool, Run [sys_executable w, ''-m'', ''pip'', ''install'', tool] None]
             @ (case parent of
                  None \<Rightarrow> []
                | Some p \<Rightarrow> [Warning p ''Missing Dependency'' (get_install_commands tool)]),
           Inr False))
   \<and> (\<forall>tr x. ensure_installed w tool parent = (tr, Inl x) \<longrightarrow>
        (py_import w tool = Some x \<and> \<not> isinstance_ImportError x)
        \<or> (\<exists>e. py_import w tool = Some e \<and> isinstance_ImportError e \<and>
              subprocess_run w [sys_executable w, ''-m'', ''pip'', ''install'', tool] None = Some x \<and>
              \<not> isinstance_Exception x))"
  by (auto simp: ensure_installed_def Let_def split: option.splits if_splits)

lemma sample_imports:
  "py_import sample_world ''nuitka'' = None"
  "py_import offline_world ''pyinstaller'' = Some (Exn ModuleNotFoundError ''No module named pyinstaller'')"
  "isinstance_ImportError (Exn ModuleNotFoundError ''No module named pyinstaller'')"
  "subprocess_run offline_world [sys_executable offline_world, ''-m'', ''pip'', ''install'', ''pyinstaller''] None
     = Some (Exn CalledProcessError ''Command returned non-zero exit status'')"
  "isinstance_Exception (Exn CalledProcessError ''Command returned non-zero exit status'')"
  by (simp_all add: py_import_def sample_world_def offline_world_def subprocess_run_def
        isinstance_ImportError_def isinstance_Exception_def)

theorem ensure_installed_contract_witness:
  "ensure_installed sample_world ''nuitka'' None = ([Import ''nuitka''], Inr True)
   \<and> ensure_installed offline_world ''pyinstaller'' (Some MainWindow) =
       ([Import ''pyinstaller'',
         Run [''/usr/bin/python3'', ''-m'', ''pip'', ''install'', ''pyinstaller''] None,
         Warning MainWindow ''Missing Dependency'' (get_install_commands ''pyinstaller'')],
        Inr False)"
proof
  from ensure_installed_contract [of sample_world "''nuitka''" None] sample_imports(1)
  show "ensure_installed sample_world ''nuitka'' None = ([Import ''nuitka''], Inr True)"
    by blast
next
  have x: "sys_executable offline_world = ''/usr/bin/python3''"
    by (simp add: offline_world_def sample_world_def)
  from ensure_installed_contract [of offline_world "''pyinstaller''" "Some MainWindow"]
       sample_imports(2-5)
  have "ensure_installed offline_world ''pyinstaller'' (Some MainWindow) =
          ([Import ''pyinstaller'',
            Run [sys_executable offline_world, ''-m'', ''pip'', ''install'', ''pyinstaller''] None]
             @ (case Some MainWindow of
                  None \<Rightarrow> []
                | Some p \<Rightarrow> [Warning p ''Missing Dependency'' (get_install_commands ''pyinstaller'')]),
           Inr False)"
    by blast
  then show "ensure_installed offline_world ''pyinstaller'' (Some MainWindow) =
       ([Import ''pyinstaller'',
         Run [''/usr/bin/python3'', ''-m'', ''pip'', ''install'', ''pyinstaller''] None,
         Warning MainWindow ''Missing Dependency'' (get_install_commands ''pyinstaller'')],
        Inr False)"
    unfolding x by simp
qed

text \<open>The claim as stated fails: for the empty package name the import raises
  \<open>ValueError\<close>, which \<open>except ImportError\<close> does not catch, and the exception reaches the
  caller.\<close>

theorem ensure_installed_propagates_counterexample:
  "ensure_installed sample_world [] (Some MainWindow)
     = ([Import []], Inl (Exn ValueError ''Empty module name''))"
  by (simp add: ensure_installed_def py_import_def isinstance_ImportError_def)

section \<open>The build when the tool is unavailable\<close>

text \<open>
  Claim C6. With a file selected and one of the six tools chosen, when the dependency
  check for the tool's package returns false, \<open>build_exe\<close> does nothing after it: the
  effects of the build are those of the check alone (the import attempt, the failed
  \<open>pip install\<close>, the warning dialog), no branch of a tool runs and no build process is
  started; no exception is raised, and the only change to the window is the status text
  "<package> not available.".
\<close>

theorem dependency_unavailable_aborts:
  assumes "file_path s = Some path" "path \<noteq> []" "0 \<le> current_index s" "current_index s < 6"
    and "tool = snd (TOOLS ! nat (current_index s))"
    and "ensure_installed w tool (Some MainWindow) = (tr, Inr False)"
  shows "build_exe w s = (tr, s\<lparr>status := tool @ '' not available.''\<rparr>, None)
     \<and> tr = [Import tool,
             Run [sys_executable w, ''-m'', ''pip'', ''install'', tool] None,
             Warning MainWindow ''Missing Dependency'' (get_install_commands tool)]"
proof
  from assms(3,4) have "py_getitem TOOLS (current_index s) = Inr (TOOLS ! nat (current_index s))"
    by (simp add: py_getitem_in_range length_TOOLS)
  then show "build_exe w s = (tr, s\<lparr>status := tool @ '' not available.''\<rparr>, None)"
    using assms(1,2,5,6)
    by (cases "TOOLS ! nat (current_index s)") (simp add: build_exe_def)
next
  from assms(6) show "tr = [Import tool,
             Run [sys_executable w, ''-m'', ''pip'', ''install'', tool] None,
             Warning MainWindow ''Missing Dependency'' (get_install_commands tool)]"
    by (auto simp: ensure_installed_def Let_def split: option.splits if_splits)
qed

lemma sample_unavailable_state:
  "file_path (sample_app ''/home/u/app.py'' 1 [0]) = Some ''/home/u/app.py''"
  "0 \<le> current_index (sample_app ''/home/u/app.py'' 1 [0])"
  "current_index (sample_app ''/home/u/app.py'' 1 [0]) < 6"
  "''pyinstaller'' = snd (TOOLS ! nat (current_index (sample_app ''/home/u/app.py'' 1 [0])))"
  by code_simp+

lemma offline_pyinstaller_unavailable:
  "ensure_installed offline_world ''pyinstaller'' (Some MainWindow) =
       ([Import ''pyinstaller'',
         Run [''/usr/bin/python3'', ''-m'', ''pip'', ''install'', ''pyinstaller''] None,
         Warning MainWindow ''Missing Dependency'' (get_install_commands ''pyinstaller'')],
        Inr False)"
  by (simp add: ensure_installed_def py_import_def sample_world_def offline_world_def
        subprocess_run_def isinstance_ImportError_def isinstance_Exception_def)

theorem dependency_unavailable_aborts_witness:
  "build_exe offline_world (sample_app ''/home/u/app.py'' 1 [0]) =
     ([Import ''pyinstaller'',
       Run [''/usr/bin/python3'', ''-m'', ''pip'', ''install'', ''pyinstaller''] None,
       Warning MainWindow ''Missing Dependency'' (get_install_commands ''pyinstaller'')],
      (sample_app ''/home/u/app.py'' 1 [0])\<lparr>status := ''pyinstaller not available.''\<rparr>,
      None)"
  using dependency_unavailable_aborts
    [OF sample_unavailable_state(1) sample_path_nonempty sample_unavailable_state(2,3,4)
        offline_pyinstaller_unavailable]
  by simp

section \<open>Failures of the build process\<close>

text \<open>In the body of the \<open>try\<close>, a process that fails is the last effect, its exception is
  the one raised, and every effect before it succeeded.\<close>

lemma run_tool_failure:
  assumes "run_tool w path idx flags = (tr2, r)" "ev \<in> set tr2" "process_failure w ev = Some e"
  shows "r = Inl e \<and> last tr2 = ev \<and> list_all (\<lambda>x. process_failure w x = None) (butlast tr2)"
  using assms
  by (auto simp: run_tool_def Let_def process_failure_def
        split: if_splits option.splits sum.splits)

text \<open>
  Claim C7, as the code has it. Take a build attempt with a file selected, one of the six
  tools chosen and its package available. Whenever a process started by the build fails
  in a way Python reports as an \<open>Exception\<close> (for \<open>subprocess.run\<close>: the launch raises or
  the process exits nonzero, which raises \<open>CalledProcessError\<close>; for the detached
  \<open>subprocess.Popen\<close> of tool 5: the launch raises), then no exception leaves \<open>build_exe\<close>,
  the only change to the window is the status text "Build failed: " followed by the text
  of the exception unchanged, the failing invocation is the last effect of the build
  (nothing is retried, cleaned up or continued) and every earlier effect succeeded.
\<close>

theorem build_failure_surfaced:
  assumes "file_path s = Some path" "path \<noteq> []" "0 \<le> current_index s" "current_index s < 6"
    and "ensure_installed w (snd (TOOLS ! nat (current_index s))) (Some MainWindow) = (tr, Inr True)"
    and "ev \<in> set (fst (build_exe w s))" "process_failure w ev = Some e"
    and "isinstance_Exception e"
  shows "snd (build_exe w s) = (s\<lparr>status := ''Build failed: '' @ exn_str e\<rparr>, None)
     \<and> last (fst (build_exe w s)) = ev
     \<and> list_all (\<lambda>x. process_failure w x = None) (butlast (fst (build_exe w s)))"
proof -
  from assms(3,4) have g: "py_getitem TOOLS (current_index s) = Inr (TOOLS ! nat (current_index s))"
    by (simp add: py_getitem_in_range length_TOOLS)
  have ok: "process_failure w x = None" if "x \<in> set tr" for x
    using ensure_installed_True_no_failure [OF assms(5) that] .
  show ?thesis
  proof (cases "collect_flags s (current_index s) 0 (checkboxes s) []")
    case (Inl x)
    then have "fst (build_exe w s) = tr"
      using g assms(1,2,5) by (cases "TOOLS ! nat (current_index s)") (simp add: build_exe_def)
    with assms(6,7) ok show ?thesis by auto
  next
    case (Inr flags)
    obtain tr2 r where rt: "run_tool w path (current_index s) flags = (tr2, r)"
      by (cases "run_tool w path (current_index s) flags")
    have b: "build_exe w s =
       (case r of
          Inr None \<Rightarrow> (tr @ tr2, s, None)
        | Inr (Some msg) \<Rightarrow> (tr @ tr2, s\<lparr>status := msg\<rparr>, None)
        | Inl e \<Rightarrow>
            if isinstance_Exception e
            then (tr @ tr2, s\<lparr>status := ''Build failed: '' @ exn_str e\<rparr>, None)
            else (tr @ tr2, s, Some e))"
      using g assms(1,2,5) Inr rt
      by (cases "TOOLS ! nat (current_index s)") (simp add: build_exe_def)
    then have f: "fst (build_exe w s) = tr @ tr2"
      by (simp split: sum.splits option.splits)
    with assms(6,7) ok have "ev \<in> set tr2"
      by auto
    from run_tool_failure [OF rt this assms(7)]
    have r: "r = Inl e" and l: "last tr2 = ev"
      and a: "list_all (\<lambda>x. process_failure w x = None) (butlast tr2)"
      by simp_all
    from \<open>ev \<in> set tr2\<close> have ne: "tr2 \<noteq> []"
      by auto
    have "list_all (\<lambda>x. process_failure w x = None) tr"
      using ok by (simp add: list_all_iff)
    with a ne l show ?thesis
      using b r assms(8) by (simp add: butlast_append)
  qed
qed

lemma sample_nuitka_state:
  "file_path (sample_app ''/home/u/app.py'' 0 [1]) = Some ''/home/u/app.py''"
  "0 \<le> current_index (sample_app ''/home/u/app.py'' 0 [1])"
  "current_index (sample_app ''/home/u/app.py'' 0 [1]) < 6"
  "panel_ok (sample_app ''/home/u/app.py'' 0 [1])"
  "current_index (sample_app ''/home/u/app.py'' 0 [1]) = 0"
  "enabled_flags (sample_app ''/home/u/app.py'' 0 [1]) = [''--standalone'']"
  by code_simp+

lemma sample_nuitka_available:
  "ensure_installed sample_world (snd (TOOLS ! nat (current_index (sample_app ''/home/u/app.py'' 0 [1]))))
     (Some MainWindow) = ([Import ''nuitka''], Inr True)"
  unfolding sample_nuitka_state(5)
  by (simp add: TOOLS_def ensure_installed_def py_import_def sample_world_def)

lemma sample_nuitka_fails:
  "process_failure sample_world
     (Run [''/usr/bin/python3'', ''-m'', ''nuitka'', ''/home/u/app.py'', ''--standalone''] None)
     = Some (Exn CalledProcessError ''Command returned non-zero exit status'')"
  "isinstance_Exception (Exn CalledProcessError ''Command returned non-zero exit status'')"
  by (simp_all add: process_failure_def subprocess_run_def sample_world_def isinstance_Exception_def)

lemma sample_nuitka_trace:
  "fst (build_exe sample_world (sample_app ''/home/u/app.py'' 0 [1])) =
     [Import ''nuitka'',
      Run [''/usr/bin/python3'', ''-m'', ''nuitka'', ''/home/u/app.py'', ''--standalone''] None]"
  unfolding build_exe_available
    [OF sample_nuitka_state(1) sample_path_nonempty sample_nuitka_state(4) sample_nuitka_available]
    sample_nuitka_state(5,6)
  by (simp add: run_tool_def subprocess_run_def sample_world_def isinstance_Exception_def)

theorem build_failure_surfaced_witness:
  "snd (build_exe sample_world (sample_app ''/home/u/app.py'' 0 [1])) =
     ((sample_app ''/home/u/app.py'' 0 [1])
        \<lparr>status := ''Build failed: Command returned non-zero exit status''\<rparr>, None)
   \<and> last (fst (build_exe sample_world (sample_app ''/home/u/app.py'' 0 [1]))) =
       Run [''/usr/bin/python3'', ''-m'', ''nuitka'', ''/home/u/app.py'', ''--standalone''] None"
proof -
  have m: "Run [''/usr/bin/python3'', ''-m'', ''nuitka'', ''/home/u/app.py'', ''--standalone''] None
      \<in> set (fst (build_exe sample_world (sample_app ''/home/u/app.py'' 0 [1])))"
    unfolding sample_nuitka_trace by simp
  from build_failure_surfaced
    [OF sample_nuitka_state(1) sample_path_nonempty sample_nuitka_state(2,3)
        sample_nuitka_available m sample_nuitka_fails]
  show ?thesis
    by simp
qed

text \<open>The claim as stated fails for tool 5: the GUI of auto-py-to-exe is started
  detached, its exit status is never read, and when it exits with status 1 the status
  text reports success of the launch, not a failure.\<close>

lemma sample_gui_state:
  "file_path (sample_app ''/home/u/app.py'' 5 []) = Some ''/home/u/app.py''"
  "panel_ok (sample_app ''/home/u/app.py'' 5 [])"
  "current_index (sample_app ''/home/u/app.py'' 5 []) = 5"
  by code_simp+

lemma sample_gui_available:
  "ensure_installed sample_world (snd (TOOLS ! nat (current_index (sample_app ''/home/u/app.py'' 5 []))))
     (Some MainWindow) =
       ([Import ''auto-py-to-exe'',
         Run [''/usr/bin/python3'', ''-m'', ''pip'', ''install'', ''auto-py-to-exe''] None],
        Inr True)"
  unfolding sample_gui_state(3)
  by (simp add: TOOLS_def ensure_installed_def py_import_def sample_world_def
        subprocess_run_def isinstance_ImportError_def)

theorem detached_gui_exit_counterexample:
  "process_outcome sample_world [''auto-py-to-exe''] None = Exits 1
   \<and> build_exe sample_world (sample_app ''/home/u/app.py'' 5 []) =
       ([Import ''auto-py-to-exe'',
         Run [''/usr/bin/python3'', ''-m'', ''pip'', ''install'', ''auto-py-to-exe''] None,
         Popen [''auto-py-to-exe'']],
        (sample_app ''/home/u/app.py'' 5 [])
          \<lparr>status := ''Opened auto-py-to-exe GUI. Use it to build your EXE.''\<rparr>,
        None)"
proof
  show "process_outcome sample_world [''auto-py-to-exe''] None = Exits 1"
    by (simp add: sample_world_def)
next
  show "build_exe sample_world (sample_app ''/home/u/app.py'' 5 []) =
       ([Import ''auto-py-to-exe'',
         Run [''/usr/bin/python3'', ''-m'', ''pip'', ''install'', ''auto-py-to-exe''] None,
         Popen [''auto-py-to-exe'']],
        (sample_app ''/home/u/app.py'' 5 [])
          \<lparr>status := ''Opened auto-py-to-exe GUI. Use it to build your EXE.''\<rparr>,
        None)"
    unfolding build_exe_available
      [OF sample_gui_state(1) sample_path_nonempty sample_gui_state(2) sample_gui_available]
      sample_gui_state(3)
    by (simp add: run_tool_def subprocess_Popen_def sample_world_def)
qed

section \<open>Rebuilding the flag panel\<close>

lemma insert_remove1: "w \<in> set l \<Longrightarrow> insert w (set (remove1 w l)) = set l"
  by (induction l) auto

text \<open>The removal loop empties the layout and hands every widget of it to
  \<open>deleteLater()\<close>; it never runs past the end of the layout.\<close>

lemma remove_widgets_all:
  "length (flags_layout s) = n \<Longrightarrow>
     \<exists>ds. set ds = set (flags_layout s) \<and>
       remove_widgets (rev [0..<n]) s
         = (s\<lparr>flags_layout := [], delete_later := delete_later s @ ds\<rparr>, None)"
proof (induction n arbitrary: s)
  case 0
  then have "s\<lparr>flags_layout := [], delete_later := delete_later s @ []\<rparr> = s"
    by simp
  with 0 show ?case
    by (intro exI [of _ "[]"]) simp
next
  case (Suc n)
  let ?w = "flags_layout s ! n"
  let ?s = "s\<lparr>flags_layout := remove1 ?w (flags_layout s), delete_later := delete_later s @ [?w]\<rparr>"
  from Suc.prems have mem: "?w \<in> set (flags_layout s)"
    by simp
  then have "length (flags_layout ?s) = n"
    using Suc.prems by (simp add: length_remove1)
  from Suc.IH [OF this] obtain ds where ds: "set ds = set (remove1 ?w (flags_layout s))"
    and r: "remove_widgets (rev [0..<n]) ?s
         = (?s\<lparr>flags_layout := [], delete_later := delete_later ?s @ ds\<rparr>, None)"
    by auto
  have "set (?w # ds) = set (flags_layout s)"
    using ds insert_remove1 [OF mem] by simp
  moreover have "remove_widgets (rev [0..<Suc n]) s
      = (s\<lparr>flags_layout := [], delete_later := delete_later s @ (?w # ds)\<rparr>, None)"
    using Suc.prems r by (simp add: Let_def)
  ultimately show ?case
    by blast
qed

text \<open>What adding the checkboxes changes, field by field.\<close>

lemma add_checkboxes_fields:
  "file_path (add_checkboxes ds s) = file_path s"
  "status (add_checkboxes ds s) = status s"
  "current_index (add_checkboxes ds s) = current_index s"
  "delete_later (add_checkboxes ds s) = delete_later s"
  "next_ref (add_checkboxes ds s) = next_ref s + length ds"
  by (induction ds s rule: add_checkboxes.induct) simp_all

lemma add_checkboxes_lists:
  "flags_layout (add_checkboxes ds s) = flags_layout s @ [next_ref s..<next_ref s + length ds]"
  "checkboxes (add_checkboxes ds s) = checkboxes s @ [next_ref s..<next_ref s + length ds]"
  by (induction ds s rule: add_checkboxes.induct) (simp_all del: upt_Suc add: upt_conv_Cons)

lemma add_checkboxes_widgets_old:
  "r < next_ref s \<Longrightarrow> widgets (add_checkboxes ds s) r = widgets s r"
  by (induction ds s rule: add_checkboxes.induct) simp_all

lemma add_checkboxes_widgets_new:
  "k < length ds \<Longrightarrow>
     widgets (add_checkboxes ds s) (next_ref s + k)
       = Some (QCheckBox (fst (ds ! k) @ '' ('' @ snd (ds ! k) @ '')'') False)"
proof (induction ds s arbitrary: k rule: add_checkboxes.induct)
  case (1 s)
  then show ?case by simp
next
  case (2 flag explanation rest s)
  show ?case
  proof (cases k)
    case 0
    then show ?thesis
      by (simp add: add_checkboxes_widgets_old)
  next
    case (Suc j)
    with 2 show ?thesis
      by simp
  qed
qed

lemma add_checkboxes_widgets_map:
  "map (widgets (add_checkboxes ds s)) [next_ref s..<next_ref s + length ds]
     = map (\<lambda>(flag, explanation). Some (QCheckBox (flag @ '' ('' @ explanation @ '')'') False)) ds"
  by (rule nth_equalityI) (simp_all add: add_checkboxes_widgets_new case_prod_beta)

text \<open>The state \<open>show_flag_checkboxes\<close> leaves when the index is one of the six.\<close>

lemma show_flag_checkboxes_result:
  assumes "0 \<le> current_index s" "current_index s < 6"
  shows "\<exists>dl. set dl = set (flags_layout s) \<and>
     show_flag_checkboxes s =
       (let s3 = add_checkboxes (TOOL_FLAGS ! nat (current_index s))
                   (s\<lparr>flags_layout := [], delete_later := delete_later s @ dl, checkboxes := []\<rparr>)
        in if current_index s = 5
           then add_label ''Use the GUI to set all options for PyInstaller visually.'' s3
           else s3,
        None)"
proof -
  from remove_widgets_all [OF refl, of s] obtain dl where dl: "set dl = set (flags_layout s)"
    and r: "remove_widgets (rev [0..<length (flags_layout s)]) s
         = (s\<lparr>flags_layout := [], delete_later := delete_later s @ dl\<rparr>, None)"
    by blast
  from assms have g: "py_getitem TOOL_FLAGS (current_index s) = Inr (TOOL_FLAGS ! nat (current_index s))"
    by (simp add: py_getitem_in_range length_TOOL_FLAGS)
  have "show_flag_checkboxes s =
       (let s3 = add_checkboxes (TOOL_FLAGS ! nat (current_index s))
                   (s\<lparr>flags_layout := [], delete_later := delete_later s @ dl, checkboxes := []\<rparr>)
        in if current_index s = 5
           then add_label ''Use the GUI to set all options for PyInstaller visually.'' s3
           else s3,
        None)"
    by (simp add: show_flag_checkboxes_def r g Let_def)
  with dl show ?thesis
    by blast
qed

text \<open>The whole effect of a change of selection on the panel.\<close>

lemma rebuild_panel:
  assumes "0 \<le> i" "i \<le> 5" "refs_allocated s" "currentIndexChanged i s = (s', r)"
  shows "r = None
     \<and> current_index s' = i \<and> file_path s' = file_path s \<and> status s' = status s
     \<and> map (widgets s') (flags_layout s') =
         map (\<lambda>(flag, explanation). Some (QCheckBox (flag @ '' ('' @ explanation @ '')'') False))
           (TOOL_FLAGS ! nat i)
         @ (if i = 5
            then [Some (QLabel ''Use the GUI to set all options for PyInstaller visually.'')]
            else [])
     \<and> checkboxes s' = take (length (TOOL_FLAGS ! nat i)) (flags_layout s')
     \<and> distinct (flags_layout s')
     \<and> list_all (\<lambda>x. x \<notin> set (flags_layout s) \<and> x \<notin> set (checkboxes s)) (flags_layout s')
     \<and> list_all (\<lambda>x. x \<in> set (delete_later s')) (flags_layout s)
     \<and> list_all (\<lambda>x. \<not> ticked s' x) (flags_layout s')
     \<and> panel_ok s' \<and> refs_allocated s'"
proof -
  let ?ds = "TOOL_FLAGS ! nat i"
  let ?n = "next_ref s"
  let ?lbl = "''Use the GUI to set all options for PyInstaller visually.''"
  from assms(1,2) show_flag_checkboxes_result [of "s\<lparr>current_index := i\<rparr>"]
  obtain dl where dl: "set dl = set (flags_layout s)"
    and res: "show_flag_checkboxes (s\<lparr>current_index := i\<rparr>) =
       (let s3 = add_checkboxes ?ds
                   (s\<lparr>current_index := i, flags_layout := [],
                      delete_later := delete_later s @ dl, checkboxes := []\<rparr>)
        in if i = 5 then add_label ?lbl s3 else s3,
        None)"
    by auto
  let ?base = "s\<lparr>current_index := i, flags_layout := [],
                 delete_later := delete_later s @ dl, checkboxes := []\<rparr>"
  let ?s3 = "add_checkboxes ?ds ?base"
  from assms(3) have old: "x < ?n" if "x \<in> set (flags_layout s) \<union> set (checkboxes s)" for x
    using that by (auto simp: refs_allocated_def list_all_iff)
  have l3: "flags_layout ?s3 = [?n..<?n + length ?ds]"
    and c3: "checkboxes ?s3 = [?n..<?n + length ?ds]"
    by (simp_all add: add_checkboxes_lists)
  have w3: "map (widgets ?s3) [?n..<?n + length ?ds] =
      map (\<lambda>(flag, explanation). Some (QCheckBox (flag @ '' ('' @ explanation @ '')'') False)) ?ds"
    using add_checkboxes_widgets_map [of ?ds ?base] by simp
  have new3: "widgets ?s3 x = Some (QCheckBox (fst (?ds ! (x - ?n)) @ '' ('' @ snd (?ds ! (x - ?n)) @ '')'') False)"
    if "?n \<le> x" "x < ?n + length ?ds" for x
    using add_checkboxes_widgets_new [of "x - ?n" ?ds ?base] that by simp
  have f3: "current_index ?s3 = i" "file_path ?s3 = file_path s" "status ?s3 = status s"
    "delete_later ?s3 = delete_later s @ dl" "next_ref ?s3 = ?n + length ?ds"
    by (simp_all add: add_checkboxes_fields)
  show ?thesis
  proof (cases "i = 5")
    case False
    with assms(4) res have s': "s' = ?s3" and r: "r = None"
      by (simp_all add: currentIndexChanged_def Let_def)
    have "list_all (\<lambda>x. \<not> ticked s' x) (flags_layout s')"
      unfolding s' l3 using new3 by (simp add: list_all_iff ticked_def)
    moreover have "panel_ok s'"
      unfolding s' using assms(1,2) new3
      by (simp add: panel_ok_def f3 c3 list_all_iff is_checkbox_def)
    moreover have "refs_allocated s'"
      unfolding s' by (simp add: refs_allocated_def l3 c3 f3 list_all_iff)
    moreover have "list_all (\<lambda>x. x \<notin> set (flags_layout s) \<and> x \<notin> set (checkboxes s)) (flags_layout s')"
      unfolding s' l3 using old by (fastforce simp: list_all_iff)
    moreover have "list_all (\<lambda>x. x \<in> set (delete_later s')) (flags_layout s)"
      unfolding s' f3 using dl by (simp add: list_all_iff)
    ultimately show ?thesis
      using False r w3 by (simp add: s' l3 c3 f3)
  next
    case True
    then have ds: "?ds = []"
      by (simp add: TOOL_FLAGS_def)
    from True assms(4) res have s': "s' = add_label ?lbl ?s3" and r: "r = None"
      by (simp_all add: currentIndexChanged_def Let_def)
    have s3: "?s3 = ?base"
      by (simp add: ds)
    have "list_all (\<lambda>x. x \<notin> set (flags_layout s) \<and> x \<notin> set (checkboxes s)) (flags_layout s')"
      unfolding s' s3 using old by (fastforce simp: list_all_iff add_label_def)
    moreover have "list_all (\<lambda>x. x \<in> set (delete_later s')) (flags_layout s)"
      unfolding s' s3 using dl by (simp add: list_all_iff add_label_def)
    moreover have "panel_ok s'"
      unfolding s' s3 using True by (simp add: panel_ok_def add_label_def TOOL_FLAGS_def)
    moreover have t5: "TOOL_FLAGS ! 5 = []"
      by (simp add: TOOL_FLAGS_def)
    ultimately show ?thesis
      using True r
      by (simp add: s' add_label_def ticked_def refs_allocated_def)
  qed
qed

text \<open>
  Claim C3. Let the selection change to a tool index \<open>i\<close> from 0 to 5, in a window whose
  panel holds references handed out earlier. After the rebuild, which raises nothing:
  the widgets of the panel are, in order, one unticked checkbox per flag descriptor of
  the catalog row \<open>i\<close>, labelled with the token and the explanation in parentheses,
  followed for \<open>i = 5\<close> by the informational label and by nothing otherwise;
  \<open>self.checkboxes\<close> holds exactly those checkboxes, in that order; all of them are new
  objects: no widget of the previous panel and no previous checkbox is in the new
  panel, and every widget of the previous panel has been handed to \<open>deleteLater()\<close>; no
  widget of the new panel is ticked. The selected file and the status text are
  untouched, and the new panel fits the selected tool.
\<close>

theorem panel_rebuilt_for_selection:
  assumes "0 \<le> i" "i \<le> 5" "refs_allocated s" "currentIndexChanged i s = (s', r)"
  shows "r = None
     \<and> current_index s' = i \<and> file_path s' = file_path s \<and> status s' = status s
     \<and> map (widgets s') (flags_layout s') =
         map (\<lambda>(flag, explanation). Some (QCheckBox (flag @ '' ('' @ explanation @ '')'') False))
           (TOOL_FLAGS ! nat i)
         @ (if i = 5
            then [Some (QLabel ''Use the GUI to set all options for PyInstaller visually.'')]
            else [])
     \<and> checkboxes s' = take (length (TOOL_FLAGS ! nat i)) (flags_layout s')
     \<and> distinct (flags_layout s')
     \<and> list_all (\<lambda>x. x \<notin> set (flags_layout s) \<and> x \<notin> set (checkboxes s)) (flags_layout s')
     \<and> list_all (\<lambda>x. x \<in> set (delete_later s')) (flags_layout s)
     \<and> list_all (\<lambda>x. \<not> ticked s' x) (flags_layout s')
     \<and> panel_ok s' \<and> refs_allocated s'"
  using rebuild_panel [OF assms] .

lemma sample_switch_state: "refs_allocated (sample_app ''/home/u/app.py'' 3 [1])"
  by code_simp

lemma sample_switch_values:
  "flags_layout (sample_app ''/home/u/app.py'' 3 [1]) = [8, 9, 10, 11]"
  "ticked (sample_app ''/home/u/app.py'' 3 [1]) 9"
  by code_simp+

theorem panel_rebuilt_for_selection_witness:
  "snd (currentIndexChanged 2 (sample_app ''/home/u/app.py'' 3 [1])) = None
   \<and> map (widgets (fst (currentIndexChanged 2 (sample_app ''/home/u/app.py'' 3 [1]))))
         (flags_layout (fst (currentIndexChanged 2 (sample_app ''/home/u/app.py'' 3 [1])))) =
       [Some (QCheckBox ''base=None (Console app (allows input()))'' False),
        Some (QCheckBox ''base=Win32GUI (GUI app (no console))'' False),
        Some (QCheckBox ''include_files (Add extra files (use in setup.py))'' False),
        Some (QCheckBox ''silent=True (Suppress cx_Freeze output)'' False)]
   \<and> list_all (\<lambda>x. x \<notin> set (flags_layout (sample_app ''/home/u/app.py'' 3 [1])))
        (flags_layout (fst (currentIndexChanged 2 (sample_app ''/home/u/app.py'' 3 [1]))))
   \<and> ticked (sample_app ''/home/u/app.py'' 3 [1]) 9"
proof -
  have i: "(0::int) \<le> 2" "(2::int) \<le> 5"
    by simp_all
  note th = panel_rebuilt_for_selection
    [OF i sample_switch_state prod.collapse [symmetric]]
  from th have "snd (currentIndexChanged 2 (sample_app ''/home/u/app.py'' 3 [1])) = None"
    by blast
  moreover from th have
    "map (widgets (fst (currentIndexChanged 2 (sample_app ''/home/u/app.py'' 3 [1]))))
         (flags_layout (fst (currentIndexChanged 2 (sample_app ''/home/u/app.py'' 3 [1])))) =
       map (\<lambda>(flag, explanation). Some (QCheckBox (flag @ '' ('' @ explanation @ '')'') False))
           (TOOL_FLAGS ! nat 2) @ (if (2::int) = 5
            then [Some (QLabel ''Use the GUI to set all options for PyInstaller visually.'')]
            else [])"
    by blast
  then have
    "map (widgets (fst (currentIndexChanged 2 (sample_app ''/home/u/app.py'' 3 [1]))))
         (flags_layout (fst (currentIndexChanged 2 (sample_app ''/home/u/app.py'' 3 [1])))) =
       [Some (QCheckBox ''base=None (Console app (allows input()))'' False),
        Some (QCheckBox ''base=Win32GUI (GUI app (no console))'' False),
        Some (QCheckBox ''include_files (Add extra files (use in setup.py))'' False),
        Some (QCheckBox ''silent=True (Suppress cx_Freeze output)'' False)]"
    by (simp add: TOOL_FLAGS_def)
  moreover from th have
    "list_all (\<lambda>x. x \<notin> set (flags_layout (sample_app ''/home/u/app.py'' 3 [1])))
        (flags_layout (fst (currentIndexChanged 2 (sample_app ''/home/u/app.py'' 3 [1]))))"
    by (simp add: list_all_iff)
  ultimately show ?thesis
    using sample_switch_values(2) by blast
qed

section \<open>Invariants of the reachable windows\<close>

text \<open>The two conditions the properties above assume of a window, a panel that fits the
  selected tool and references handed out in order, hold in every window a user can
  reach.\<close>

lemma status_update_invariants:
  "panel_ok (s\<lparr>status := m\<rparr>) = panel_ok s"
  "refs_allocated (s\<lparr>status := m\<rparr>) = refs_allocated s"
  by (simp_all add: panel_ok_def refs_allocated_def is_checkbox_def list_all_iff)

lemma select_file_invariants:
  "panel_ok (select_file w file s) = panel_ok s"
  "refs_allocated (select_file w file s) = refs_allocated s"
  by (simp_all add: select_file_def panel_ok_def refs_allocated_def is_checkbox_def list_all_iff)

lemma toggle_invariants:
  "panel_ok (toggle r s) = panel_ok s"
  "refs_allocated (toggle r s) = refs_allocated s"
  by (auto simp: toggle_def panel_ok_def refs_allocated_def is_checkbox_def list_all_iff
        split: option.splits widget.splits)

lemma build_exe_keeps_window:
  "fst (snd (build_exe w s)) = s\<lparr>status := status (fst (snd (build_exe w s)))\<rparr>"
  by (simp add: build_exe_def Let_def
        split: option.splits sum.splits prod.splits bool.splits)

lemma init_app_invariants: "panel_ok init_app \<and> refs_allocated init_app"
proof -
  have "refs_allocated blank_app"
    by (simp add: refs_allocated_def blank_app_def)
  moreover have "currentIndexChanged 0 blank_app = (init_app, snd (show_flag_checkboxes blank_app))"
    by (simp add: currentIndexChanged_def init_app_def blank_app_def)
  ultimately show ?thesis
    using rebuild_panel [of 0 blank_app init_app] by simp
qed

lemma reachable_invariants: "reachable w s \<Longrightarrow> panel_ok s \<and> refs_allocated s"
proof (induction rule: reachable.induct)
  case start
  show ?case by (rule init_app_invariants)
next
  case (pick s chosen)
  then show ?case by (simp add: select_file_invariants)
next
  case (choose s i)
  then show ?case
    using rebuild_panel [OF choose.hyps(2,3) _ prod.collapse [symmetric], of s] by simp
next
  case (tick s r)
  then show ?case by (simp add: toggle_invariants)
next
  case (build s)
  then show ?case
    using build_exe_keeps_window [of w s] status_update_invariants by metis
qed

end
